theory Spec2Isabelle
  imports Main
begin

section \<open>Python values used by the Viventium integration\<close>

text \<open>
  The integration (\<^verbatim>\<open>src/viventium_integration.py\<close>) handles three kinds of data: values
  parsed from JSON response bodies, Python strings, and the exceptions it raises or lets
  escape. Parsed JSON is a tree; a Python \<^verbatim>\<open>dict\<close> keeps insertion order and is an
  association list here, with one entry for each key. Floating-point numbers are never inspected by the code, so their
  type is left unspecified. Strings are lists of characters.

  Every object produced by \<^verbatim>\<open>response.json()\<close> is freshly built by the parser, so no two
  records of a response share storage and the in-place \<^verbatim>\<open>pop\<close> of the source is modelled on
  values. The one object that comes from the caller, the cookie mapping, lives in an explicit
  store (\<open>objects\<close> below).
\<close>

typedecl pyfloat

datatype json =
    JNull
  | JBool bool
  | JInt int
  | JFloat pyfloat
  | JStr string
  | JArr "json list"
  | JObj "(string \<times> json) list"

text \<open>
  Exceptions. The classes \<^verbatim>\<open>IntegrationAuthError\<close> and \<^verbatim>\<open>IntegrationAPIError\<close> are imported
  from \<^verbatim>\<open>submodule_integrations.utils.errors\<close>; an error value records the arguments that the
  call in the source passes to the constructor: \<^verbatim>\<open>IntegrationAuthError(message)\<close> and
  \<^verbatim>\<open>IntegrationAPIError(integration_name, message, status_code)\<close>. The remaining constructors
  are the exceptions that escape the source unhandled: those of the interpreter, and those
  that the methods of the response raise, \<open>OtherError\<close> standing for any exception class
  that is not listed, under its name.
\<close>

datatype error =
    IntegrationAuthError string
  | IntegrationAPIError string string int
  | JSONDecodeError
  | ContentTypeError
  | UnicodeDecodeError
  | OtherError string
  | AttributeError
  | TypeError
  | IndexError
  | KeyError json

text \<open>The integration name an error was constructed with, if the call passed one.\<close>

fun error_integration_name :: "error \<Rightarrow> string option" where
  "error_integration_name (IntegrationAPIError integration_name message status_code) =
     Some integration_name"
| "error_integration_name _ = None"

fun error_message :: "error \<Rightarrow> string option" where
  "error_message (IntegrationAuthError message) = Some message"
| "error_message (IntegrationAPIError integration_name message status_code) = Some message"
| "error_message _ = None"

fun error_status_code :: "error \<Rightarrow> int option" where
  "error_status_code (IntegrationAPIError integration_name message status_code) =
     Some status_code"
| "error_status_code _ = None"

fun is_auth_error :: "error \<Rightarrow> bool" where
  "is_auth_error (IntegrationAuthError message) = True"
| "is_auth_error _ = False"

fun is_api_error :: "error \<Rightarrow> bool" where
  "is_api_error (IntegrationAPIError integration_name message status_code) = True"
| "is_api_error _ = False"

subsection \<open>Formatting\<close>

text \<open>
  \<^verbatim>\<open>str()\<close> of a Python \<^verbatim>\<open>int\<close> is its decimal numeral. \<^verbatim>\<open>str()\<close> of \<^verbatim>\<open>None\<close>, a
  \<^verbatim>\<open>bool\<close> or a \<^verbatim>\<open>str\<close> is fixed as well. What the interpreter and the libraries print for
  floats, containers and the header multi-dict, and what \<^verbatim>\<open>json.dumps\<close> produces, is not
  code of the integration: these functions are parameters, collected in \<open>pylib\<close>.
\<close>

definition digit_char :: "nat \<Rightarrow> char" where
  "digit_char d =
     (if d = 0 then CHR ''0'' else if d = 1 then CHR ''1'' else if d = 2 then CHR ''2''
      else if d = 3 then CHR ''3'' else if d = 4 then CHR ''4'' else if d = 5 then CHR ''5''
      else if d = 6 then CHR ''6'' else if d = 7 then CHR ''7'' else if d = 8 then CHR ''8''
      else CHR ''9'')"

fun str_nat :: "nat \<Rightarrow> string" where
  "str_nat n =
     (if n < 10 then [digit_char n] else str_nat (n div 10) @ [digit_char (n mod 10)])"

declare str_nat.simps [simp del]

definition str_int :: "int \<Rightarrow> string" where
  "str_int i = (if i < 0 then ''-'' @ str_nat (nat (- i)) else str_nat (nat i))"

record pylib =
  repr_json :: "json \<Rightarrow> string"
  str_headers :: "(string \<times> string) list \<Rightarrow> string"
  json_dumps :: "json \<Rightarrow> string"

definition py_str :: "pylib \<Rightarrow> json \<Rightarrow> string" where
  "py_str L v =
     (case v of
        JNull \<Rightarrow> ''None''
      | JBool b \<Rightarrow> (if b then ''True'' else ''False'')
      | JInt i \<Rightarrow> str_int i
      | JStr s \<Rightarrow> s
      | _ \<Rightarrow> repr_json L v)"

text \<open>\<^verbatim>\<open>response.reason\<close> is an optional string; an f-string prints \<^verbatim>\<open>None\<close> as such.\<close>

definition str_reason :: "string option \<Rightarrow> string" where
  "str_reason r = (case r of None \<Rightarrow> ''None'' | Some s \<Rightarrow> s)"

subsection \<open>Operations on parsed values\<close>

text \<open>\<^verbatim>\<open>d.get(k)\<close>: the value under \<open>k\<close>, \<^verbatim>\<open>None\<close> when absent; only a dict has \<^verbatim>\<open>get\<close>.\<close>

definition dict_get :: "(string \<times> json) list \<Rightarrow> string \<Rightarrow> json" where
  "dict_get kvs k = (case map_of kvs k of None \<Rightarrow> JNull | Some v \<Rightarrow> v)"

fun py_get :: "json \<Rightarrow> string \<Rightarrow> error + json" where
  "py_get (JObj kvs) k = Inr (dict_get kvs k)"
| "py_get _ k = Inl AttributeError"

text \<open>
  \<^verbatim>\<open>len(x)\<close>: defined on lists, dicts and strings, a \<^verbatim>\<open>TypeError\<close> on the other parsed
  values.
\<close>

fun py_len :: "json \<Rightarrow> error + nat" where
  "py_len (JArr xs) = Inr (length xs)"
| "py_len (JObj kvs) = Inr (length kvs)"
| "py_len (JStr s) = Inr (length s)"
| "py_len _ = Inl TypeError"

text \<open>
  The elements \<^verbatim>\<open>list.extend(x)\<close> appends: the items of a list, the keys of a dict, the
  characters of a string. It is only reached after \<^verbatim>\<open>len(x)\<close> succeeded.
\<close>

fun py_iter :: "json \<Rightarrow> json list" where
  "py_iter (JArr xs) = xs"
| "py_iter (JObj kvs) = map (\<lambda>kv. JStr (fst kv)) kvs"
| "py_iter (JStr s) = map (\<lambda>c. JStr [c]) s"
| "py_iter _ = []"

text \<open>
  \<^verbatim>\<open>x[0]\<close>: the first item of a list or string (\<^verbatim>\<open>IndexError\<close> when empty); on a dict a
  lookup of the key \<open>0\<close>, which no parsed JSON object has; a \<^verbatim>\<open>TypeError\<close> otherwise.
\<close>

fun py_first :: "json \<Rightarrow> error + json" where
  "py_first (JArr []) = Inl IndexError"
| "py_first (JArr (x # xs)) = Inr x"
| "py_first (JStr []) = Inl IndexError"
| "py_first (JStr (c # cs)) = Inr (JStr [c])"
| "py_first (JObj kvs) = Inl (KeyError (JInt 0))"
| "py_first _ = Inl TypeError"

text \<open>
  \<^verbatim>\<open>x.pop(k)\<close> with a string key and no default: on a dict it removes the entry, and raises
  \<^verbatim>\<open>KeyError\<close> when there is none; \<^verbatim>\<open>list.pop\<close> wants an integer; nothing else has \<^verbatim>\<open>pop\<close>.
\<close>

definition dict_remove :: "string \<Rightarrow> (string \<times> json) list \<Rightarrow> (string \<times> json) list" where
  "dict_remove k kvs = filter (\<lambda>kv. fst kv \<noteq> k) kvs"

fun py_pop :: "json \<Rightarrow> string \<Rightarrow> error + json" where
  "py_pop (JObj kvs) k =
     (if k \<in> fst ` set kvs then Inr (JObj (dict_remove k kvs)) else Inl (KeyError (JStr k)))"
| "py_pop (JArr xs) k = Inl TypeError"
| "py_pop _ k = Inl AttributeError"

text \<open>\<^verbatim>\<open>d[k] = v\<close> on an insertion-ordered dict: overwrite in place, or append.\<close>

fun dict_set :: "('k \<times> 'v) list \<Rightarrow> 'k \<Rightarrow> 'v \<Rightarrow> ('k \<times> 'v) list" where
  "dict_set [] k v = [(k, v)]"
| "dict_set ((k', v') # kvs) k v =
     (if k' = k then (k, v) # kvs else (k', v') # dict_set kvs k v)"

text \<open>\<^verbatim>\<open>sep.join(pieces)\<close>.\<close>

fun py_join :: "string \<Rightarrow> string list \<Rightarrow> string" where
  "py_join sep [] = []"
| "py_join sep [p] = p"
| "py_join sep (p # q # ps) = p @ sep @ py_join sep (q # ps)"

section \<open>The integration object, requests and responses\<close>

record request =
  req_method :: string
  req_url :: string
  req_headers :: "(string \<times> string) list"
  req_params :: "(string \<times> string) list"

text \<open>
  What the integration reads of an \<^verbatim>\<open>aiohttp.ClientResponse\<close>: \<^verbatim>\<open>status\<close>, \<^verbatim>\<open>reason\<close>,
  \<^verbatim>\<open>headers\<close>, and the two methods that read the body, \<^verbatim>\<open>text()\<close> and \<^verbatim>\<open>json()\<close>. Either
  method returns a value or raises: \<^verbatim>\<open>json()\<close> raises \<^verbatim>\<open>ContentTypeError\<close> when the content
  type is not JSON, \<^verbatim>\<open>JSONDecodeError\<close> when the text is malformed, and both methods raise
  \<^verbatim>\<open>UnicodeDecodeError\<close> when the bytes of the body do not decode, or some other exception
  of the transport (\<open>OtherFailure\<close>, with the name of its class). The fields \<open>text_body\<close>
  and \<open>json_body\<close> hold what a call of the method does, \<open>Inl\<close> for a raise.
\<close>

datatype io_error = DecodeFailure | ContentTypeFailure | UnicodeFailure | OtherFailure string

fun raised :: "io_error \<Rightarrow> error" where
  "raised DecodeFailure = JSONDecodeError"
| "raised ContentTypeFailure = ContentTypeError"
| "raised UnicodeFailure = UnicodeDecodeError"
| "raised (OtherFailure name) = OtherError name"

record response =
  status :: int
  reason :: "string option"
  headers :: "(string \<times> string) list"
  text_body :: "io_error + string"
  json_body :: "io_error + json"

type_synonym transport = "request \<Rightarrow> response"

text \<open>
  The fields set by \<^verbatim>\<open>__init__\<close>. The base class \<^verbatim>\<open>Integration\<close> is imported; the source
  reads \<^verbatim>\<open>self.integration_name\<close>, the name handed to the base constructor.
\<close>

record integration =
  integration_name :: string
  user_agent :: string
  network_requester :: "transport option"
  url :: string

definition init :: "string \<Rightarrow> integration" where
  "init ua =
     \<lparr>integration_name = ''viventium'', user_agent = ua, network_requester = None,
      url = ''https://hcm.viventium.com/api''\<rparr>"

definition initialize :: "integration \<Rightarrow> transport option \<Rightarrow> integration" where
  "initialize self requester = self\<lparr>network_requester := requester\<rparr>"

text \<open>
  The state a call runs in: the requests issued so far (oldest first), the numbers printed
  to standard output, and the caller-owned cookie mappings, by address.
\<close>

record state =
  sent :: "request list"
  printed :: "nat list"
  objects :: "nat \<Rightarrow> (string \<times> string) list"

text \<open>The \<^verbatim>\<open>cookies\<close> argument: a reference to a caller's dict, or a string.\<close>

datatype cookies = CookieDict nat | CookieStr string

section \<open>The response normalizer\<close>

text \<open>
  Lines 33 to 62. The \<^verbatim>\<open>try\<close> of the success branch catches \<^verbatim>\<open>JSONDecodeError\<close> and
  \<^verbatim>\<open>ContentTypeError\<close> only, and its handler calls \<^verbatim>\<open>response.text()\<close>, which may raise in
  turn; every other exception of \<^verbatim>\<open>json()\<close>, and every exception of \<^verbatim>\<open>json()\<close> in the two
  failure branches, leaves the function as it is.
\<close>

definition auth_message :: "pylib \<Rightarrow> int \<Rightarrow> string option \<Rightarrow> json \<Rightarrow> json \<Rightarrow> string" where
  "auth_message L status_code rsn m t =
     ''ERSP: '' @ str_int status_code @ '' - '' @ str_reason rsn @ [CHR '' '', CHR 0x0A]
     @ ''message: '' @ py_str L m @ [CHR '' '', CHR 0x0A]
     @ ''error_type: '' @ py_str L t"

definition api_message ::
  "pylib \<Rightarrow> int \<Rightarrow> (string \<times> string) list \<Rightarrow> json \<Rightarrow> json \<Rightarrow> string" where
  "api_message L status_code hs m t =
     ''ersp: '' @ str_int status_code @ '' - '' @ str_headers L hs @ [CHR '' '', CHR 0x0A]
     @ ''message: '' @ py_str L m @ [CHR '' '', CHR 0x0A]
     @ ''error_type: '' @ py_str L t"

definition handle_response :: "pylib \<Rightarrow> integration \<Rightarrow> response \<Rightarrow> error + json" where
  "handle_response L self response =
     (if status response \<in> set [200, 201, 204] then
        (case json_body response of
           Inr v \<Rightarrow> Inr v
         | Inl e \<Rightarrow>
             if e = DecodeFailure \<or> e = ContentTypeFailure then
               (case text_body response of
                  Inl e' \<Rightarrow> Inl (raised e')
                | Inr message \<Rightarrow>
                    Inl (IntegrationAPIError ''viventium'' message (status response)))
             else Inl (raised e))
      else
        (let status_code = status response in
         if status_code \<in> set [400, 401] then
           (case json_body response of
              Inl e \<Rightarrow> Inl (raised e)
            | Inr r_json \<Rightarrow>
                (case py_get r_json ''message'' of
                   Inl e \<Rightarrow> Inl e
                 | Inr m \<Rightarrow>
                     (case py_get r_json ''error_type'' of
                        Inl e \<Rightarrow> Inl e
                      | Inr t \<Rightarrow>
                          Inl (IntegrationAuthError
                                 (auth_message L status_code (reason response) m t)))))
         else
           (case json_body response of
              Inl e \<Rightarrow> Inl (raised e)
            | Inr r_json \<Rightarrow>
                (case py_get r_json ''message'' of
                   Inl e \<Rightarrow> Inl e
                 | Inr m \<Rightarrow>
                     (case py_get r_json ''error_type'' of
                        Inl e \<Rightarrow> Inl e
                      | Inr t \<Rightarrow>
                          Inl (IntegrationAPIError (integration_name self)
                                 (api_message L status_code (headers response) m t)
                                 status_code))))))"

section \<open>The request dispatcher\<close>

text \<open>
  One network round trip. With an injected requester the request goes through it, and the
  requester hands the raw response to the callback it is given, \<^verbatim>\<open>_handle_response\<close>;
  otherwise the request goes through a fresh \<^verbatim>\<open>aiohttp\<close> session, here \<open>session\<close>. Both
  transports are functions of the request: within one call of the integration no two requests
  are equal, so this loses no run. Connection failures are not part of the model.
\<close>

definition make_request ::
  "pylib \<Rightarrow> integration \<Rightarrow> transport \<Rightarrow> request \<Rightarrow> state \<Rightarrow> state \<times> (error + json)" where
  "make_request L self session req s =
     (case network_requester self of
        Some requester \<Rightarrow>
          (s\<lparr>sent := sent s @ [req]\<rparr>, handle_response L self (requester req))
      | None \<Rightarrow>
          (s\<lparr>sent := sent s @ [req]\<rparr>, handle_response L self (session req)))"

section \<open>Headers and cookies\<close>

definition setup_headers :: "integration \<Rightarrow> string \<Rightarrow> (string \<times> string) list" where
  "setup_headers self xsrf_token =
     [(''Host'', ''hcm.viventium.com''),
      (''User-Agent'', user_agent self),
      (''Accept'', ''application/json, text/plain, */*''),
      (''Accept-Language'', ''en-GB,en;q=0.5''),
      (''X-XSRF-TOKEN'', xsrf_token),
      (''Connection'', ''keep-alive''),
      (''Referer'', ''https://hcm.viventium.com/apps/vm/''),
      (''Sec-Fetch-Dest'', ''empty''),
      (''Sec-Fetch-Mode'', ''cors''),
      (''Sec-Fetch-Site'', ''same-origin'')]"

definition cookie_pair :: "string \<times> string \<Rightarrow> string" where
  "cookie_pair kv = fst kv @ ''='' @ snd kv"

definition make_cookie_string :: "(string \<times> string) list \<Rightarrow> string" where
  "make_cookie_string cookies = py_join ''; '' (map cookie_pair cookies)"

text \<open>
  Lines 103 to 105 and 115 to 117: when the argument is a dict the local name is rebound to
  the cookie string, and the string is stored under \<^verbatim>\<open>Cookie\<close>. The dict is read, through
  \<^verbatim>\<open>items()\<close>, and nothing is written to it.
\<close>

definition cookie_header :: "cookies \<Rightarrow> state \<Rightarrow> string" where
  "cookie_header cookies s =
     (case cookies of
        CookieDict a \<Rightarrow> make_cookie_string (objects s a)
      | CookieStr c \<Rightarrow> c)"

section \<open>The division resolver\<close>

definition division_request :: "integration \<Rightarrow> string \<Rightarrow> cookies \<Rightarrow> state \<Rightarrow> request" where
  "division_request self token cookies s =
     (let endpoint = ''paystream/v1/divisions'';
          path = url self @ ''/'' @ endpoint;
          params = [(''pageNumber'', ''1''), (''pageSize'', ''1000'')];
          hs = dict_set (setup_headers self token) ''Cookie'' (cookie_header cookies s)
      in \<lparr>req_method = ''GET'', req_url = path, req_headers = hs, req_params = params\<rparr>)"

definition get_division_id ::
  "pylib \<Rightarrow> integration \<Rightarrow> transport \<Rightarrow> string \<Rightarrow> cookies \<Rightarrow> state
     \<Rightarrow> state \<times> (error + json)" where
  "get_division_id L self session token cookies s =
     (case make_request L self session (division_request self token cookies s) s of
        (s1, Inl e) \<Rightarrow> (s1, Inl e)
      | (s1, Inr response) \<Rightarrow>
          (case py_first response of
             Inl e \<Rightarrow> (s1, Inl e)
           | Inr this_division \<Rightarrow> (s1, py_get this_division ''id'')))"

section \<open>The employee profile paginator\<close>

definition query_options :: "int \<Rightarrow> json" where
  "query_options page =
     JObj [(''query'', JStr []),
           (''filterParameters'',
              JArr [JObj [(''fieldName'', JStr ''EmployeeStatus''),
                          (''filterType'', JStr ''In''),
                          (''parsableValue'',
                             JStr (''['' @ [CHR 0x22] @ ''Active'' @ [CHR 0x22] @ '']''))]]),
           (''sortParameters'',
              JArr [JObj [(''fieldName'', JStr ''EmployeeNumber''),
                          (''direction'', JStr ''Ascending'')]]),
           (''pageSize'', JInt 100),
           (''whereParameters'', JArr []),
           (''pageNumber'', JInt page)]"

definition grid_request ::
  "pylib \<Rightarrow> string \<Rightarrow> (string \<times> string) list \<Rightarrow> int \<Rightarrow> request" where
  "grid_request L path hs page =
     (let params = [(''queryOptions'', json_dumps L (query_options page))]
      in \<lparr>req_method = ''GET'', req_url = path, req_headers = hs, req_params = params\<rparr>)"

text \<open>
  The \<^verbatim>\<open>while True\<close> loop of lines 123 to 160. It need not end (a backend may serve full
  pages forever), so the loop is a partial function: \<open>None\<close> is the run that never returns.
\<close>

partial_function (option) paginate ::
  "pylib \<Rightarrow> integration \<Rightarrow> transport \<Rightarrow> string \<Rightarrow> (string \<times> string) list \<Rightarrow> int
     \<Rightarrow> json list \<Rightarrow> state \<Rightarrow> (state \<times> (error + json list)) option" where
  "paginate L self session path hs page employee_list s =
     (case make_request L self session (grid_request L path hs page) s of
        (s1, Inl e) \<Rightarrow> Some (s1, Inl e)
      | (s1, Inr employees) \<Rightarrow>
          (case py_len employees of
             Inl e \<Rightarrow> Some (s1, Inl e)
           | Inr n \<Rightarrow>
               if n > 0 then
                 (if n < 100 then
                    Some (s1\<lparr>printed := printed s1 @ [n]\<rparr>,
                          Inr (employee_list @ py_iter employees))
                  else
                    paginate L self session path hs (page + 1)
                      (employee_list @ py_iter employees) s1)
               else Some (s1, Inr employee_list)))"

text \<open>Lines 162 and 163: \<^verbatim>\<open>pop('DivisionKey')\<close> on every record, first to last.\<close>

fun pop_division_keys :: "json list \<Rightarrow> error + json list" where
  "pop_division_keys [] = Inr []"
| "pop_division_keys (employee # employee_list) =
     (case py_pop employee ''DivisionKey'' of
        Inl e \<Rightarrow> Inl e
      | Inr employee' \<Rightarrow>
          (case pop_division_keys employee_list of
             Inl e \<Rightarrow> Inl e
           | Inr rest \<Rightarrow> Inr (employee' # rest)))"

definition grid_path :: "pylib \<Rightarrow> integration \<Rightarrow> json \<Rightarrow> string" where
  "grid_path L self division_id =
     (let endpoint = ''paystream/v1/divisions/'' @ py_str L division_id
                       @ ''/grids/EmployeeProfile''
      in url self @ ''/'' @ endpoint)"

definition fetch_employee_profiles ::
  "pylib \<Rightarrow> integration \<Rightarrow> transport \<Rightarrow> string \<Rightarrow> cookies \<Rightarrow> state
     \<Rightarrow> (state \<times> (error + json list)) option" where
  "fetch_employee_profiles L self session xsrf_token cookies s =
     (case get_division_id L self session xsrf_token cookies s of
        (s1, Inl e) \<Rightarrow> Some (s1, Inl e)
      | (s1, Inr division_id) \<Rightarrow>
          (let hs = dict_set (setup_headers self xsrf_token) ''Cookie''
                      (cookie_header cookies s1);
               path = grid_path L self division_id
           in case paginate L self session path hs 1 [] s1 of
                None \<Rightarrow> None
              | Some (s2, Inl e) \<Rightarrow> Some (s2, Inl e)
              | Some (s2, Inr employee_list) \<Rightarrow>
                  Some (s2, pop_division_keys employee_list)))"

section \<open>Vocabulary of the properties\<close>

text \<open>The transport a request goes through: the injected requester when there is one.\<close>

definition transport_of :: "integration \<Rightarrow> transport \<Rightarrow> transport" where
  "transport_of self session =
     (case network_requester self of Some requester \<Rightarrow> requester | None \<Rightarrow> session)"

text \<open>A record that has the field \<^verbatim>\<open>DivisionKey\<close>, and a record with that field taken out.\<close>

fun has_division_key :: "json \<Rightarrow> bool" where
  "has_division_key (JObj kvs) = (''DivisionKey'' \<in> fst ` set kvs)"
| "has_division_key _ = False"

fun without_division_key :: "json \<Rightarrow> json" where
  "without_division_key (JObj kvs) = JObj (dict_remove ''DivisionKey'' kvs)"
| "without_division_key v = v"

fun is_record :: "json \<Rightarrow> bool" where
  "is_record (JObj kvs) = True"
| "is_record _ = False"

text \<open>
  Reading a cookie string back: \<open>split_pairs\<close> cuts a string at every occurrence of the
  separator \<^verbatim>\<open>"; "\<close>, left to right, and \<open>has_separator\<close> says that the separator occurs.
\<close>

fun cons_first :: "char \<Rightarrow> string list \<Rightarrow> string list" where
  "cons_first c [] = [[c]]"
| "cons_first c (p # ps) = (c # p) # ps"

fun split_pairs :: "string \<Rightarrow> string list" where
  "split_pairs [] = [[]]"
| "split_pairs [c] = [[c]]"
| "split_pairs (c # d # cs) =
     (if c = CHR '';'' \<and> d = CHR '' '' then [] # split_pairs cs
      else cons_first c (split_pairs (d # cs)))"

fun has_separator :: "string \<Rightarrow> bool" where
  "has_separator (c # d # cs) = (c = CHR '';'' \<and> d = CHR '' '' \<or> has_separator (d # cs))"
| "has_separator _ = False"

section \<open>Example values\<close>

text \<open>
  Concrete stand-ins for the library functions, and a test backend: it answers the
  divisions request with one division, \<open>42\<close>, and serves a list of records in pages of 100.
  The serializer below writes JSON text without floats; it plays \<^verbatim>\<open>json.dumps\<close> and
  \<^verbatim>\<open>repr\<close> in the examples only.
\<close>

fun quote_chars :: "string \<Rightarrow> string" where
  "quote_chars [] = []"
| "quote_chars (c # cs) =
     (if c = CHR 0x22 \<or> c = CHR 0x5C then CHR 0x5C # c # quote_chars cs
      else c # quote_chars cs)"

fun example_dumps :: "json \<Rightarrow> string" where
  "example_dumps JNull = ''null''"
| "example_dumps (JBool b) = (if b then ''true'' else ''false'')"
| "example_dumps (JInt i) = str_int i"
| "example_dumps (JFloat f) = ''0.0''"
| "example_dumps (JStr s) = [CHR 0x22] @ quote_chars s @ [CHR 0x22]"
| "example_dumps (JArr xs) = ''['' @ py_join '', '' (map example_dumps xs) @ '']''"
| "example_dumps (JObj kvs) =
     ''{'' @ py_join '', ''
              (map (\<lambda>kv. [CHR 0x22] @ quote_chars (fst kv) @ [CHR 0x22] @ '': ''
                          @ example_dumps (snd kv)) kvs) @ ''}''"

definition example_lib :: pylib where
  "example_lib =
     \<lparr>repr_json = example_dumps,
      str_headers = (\<lambda>hs. example_dumps (JObj (map (\<lambda>kv. (fst kv, JStr (snd kv))) hs))),
      json_dumps = example_dumps\<rparr>"

definition json_response :: "int \<Rightarrow> string \<Rightarrow> json \<Rightarrow> response" where
  "json_response code phrase v =
     \<lparr>status = code, reason = Some phrase,
      headers = [(''Content-Type'', ''application/json'')],
      text_body = Inr (example_dumps v), json_body = Inr v\<rparr>"

definition html_response :: "int \<Rightarrow> string \<Rightarrow> string \<Rightarrow> response" where
  "html_response code phrase body =
     \<lparr>status = code, reason = Some phrase,
      headers = [(''Content-Type'', ''text/html'')],
      text_body = Inr body, json_body = Inl ContentTypeFailure\<rparr>"

text \<open>A response whose bytes are not valid in its character set: neither method decodes it.\<close>

definition undecodable_response :: "int \<Rightarrow> string \<Rightarrow> response" where
  "undecodable_response code phrase =
     \<lparr>status = code, reason = Some phrase,
      headers = [(''Content-Type'', ''application/json'')],
      text_body = Inl UnicodeFailure, json_body = Inl UnicodeFailure\<rparr>"

definition vendor_error :: json where
  "vendor_error = JObj [(''message'', JStr ''Session expired''), (''error_type'', JStr ''auth'')]"

definition example_self :: integration where
  "example_self = init ''Mozilla/5.0''"

definition example_state :: state where
  "example_state = \<lparr>sent = [], printed = [], objects = (\<lambda>a. [(''sess'', ''abc'')])\<rparr>"

definition page_of_request :: "nat \<Rightarrow> request \<Rightarrow> nat option" where
  "page_of_request n req =
     find (\<lambda>p. req_params req
                 = [(''queryOptions'', example_dumps (query_options (int p)))]) [1..<Suc n]"

definition example_backend :: "json list \<Rightarrow> transport" where
  "example_backend recs req =
     (if req_url req = ''https://hcm.viventium.com/api/paystream/v1/divisions''
      then json_response 200 ''OK'' (JArr [JObj [(''id'', JStr ''42'')]])
      else
        (case page_of_request (length recs div 100 + 1) req of
           Some p \<Rightarrow> json_response 200 ''OK'' (JArr (take 100 (drop (100 * (p - 1)) recs)))
         | None \<Rightarrow> json_response 200 ''OK'' (JArr [])))"

definition two_divisions :: transport where
  "two_divisions req =
     json_response 200 ''OK''
       (JArr [JObj [(''id'', JStr ''D1'')], JObj [(''id'', JStr ''D2'')]])"

definition employee :: "int \<Rightarrow> json" where
  "employee n =
     JObj [(''EmployeeNumber'', JInt n), (''DivisionKey'', JStr ''42''),
           (''EmployeeStatus'', JStr ''Active'')]"

definition staff :: "json list" where
  "staff = map (\<lambda>n. employee (int n)) [0..<250]"

definition temp_worker :: json where
  "temp_worker = JObj [(''EmployeeNumber'', JInt 7), (''EmployeeStatus'', JStr ''Active'')]"

text \<open>The 250 records of \<open>staff\<close>, the first replaced by a record without \<^verbatim>\<open>DivisionKey\<close>.\<close>

definition staff_with_temp :: "json list" where
  "staff_with_temp = temp_worker # map (\<lambda>n. employee (int n)) [1..<250]"


section \<open>Properties of the response normalizer\<close>

lemma make_request_eq:
  "make_request L self session req s =
     (s\<lparr>sent := sent s @ [req]\<rparr>, handle_response L self (transport_of self session req))"
  by (simp add: make_request_def transport_of_def split: option.splits)

lemma raised_plain:
  "\<not> is_api_error (raised e)" "\<not> is_auth_error (raised e)"
  "error_integration_name (raised e) = None"
  by (cases e; simp)+

lemma handle_response_2xx:
  "status response \<in> {200, 201, 204} \<Longrightarrow>
   handle_response L self response =
     (case json_body response of
        Inr v \<Rightarrow> Inr v
      | Inl e \<Rightarrow>
          if e = DecodeFailure \<or> e = ContentTypeFailure then
            (case text_body response of
               Inl e' \<Rightarrow> Inl (raised e')
             | Inr message \<Rightarrow>
                 Inl (IntegrationAPIError ''viventium'' message (status response)))
          else Inl (raised e))"
  by (auto simp: handle_response_def)

lemma handle_response_4xx:
  "status response \<in> {400, 401} \<Longrightarrow>
   handle_response L self response =
     (case json_body response of
        Inl e \<Rightarrow> Inl (raised e)
      | Inr r_json \<Rightarrow>
          (case r_json of
             JObj kvs \<Rightarrow>
               Inl (IntegrationAuthError
                      (auth_message L (status response) (reason response)
                         (dict_get kvs ''message'') (dict_get kvs ''error_type'')))
           | _ \<Rightarrow> Inl AttributeError))"
  by (auto simp: handle_response_def Let_def split: sum.splits json.splits)

lemma handle_response_else:
  "status response \<notin> {200, 201, 204} \<Longrightarrow> status response \<notin> {400, 401} \<Longrightarrow>
   handle_response L self response =
     (case json_body response of
        Inl e \<Rightarrow> Inl (raised e)
      | Inr r_json \<Rightarrow>
          (case r_json of
             JObj kvs \<Rightarrow>
               Inl (IntegrationAPIError (integration_name self)
                      (api_message L (status response) (headers response)
                         (dict_get kvs ''message'') (dict_get kvs ''error_type''))
                      (status response))
           | _ \<Rightarrow> Inl AttributeError))"
  by (auto simp: handle_response_def Let_def split: sum.splits json.splits)

lemma init_name: "integration_name (init ua) = ''viventium''"
  by (simp add: init_def)

lemma example_self_simps:
  "integration_name example_self = ''viventium''"
  "network_requester example_self = None"
  "url example_self = ''https://hcm.viventium.com/api''"
  "user_agent example_self = ''Mozilla/5.0''"
  by (simp_all add: example_self_def init_def)

lemma str_int_examples:
  "str_int 200 = ''200''" "str_int 401 = ''401''" "str_int 500 = ''500''"
  "str_int 502 = ''502''"
  by (simp_all add: str_int_def str_nat.simps digit_char_def)

text \<open>
  C6, as the code has it. The dispatcher makes one round trip and, for a response with status
  200, 201 or 204, returns the parsed body as it is when \<^verbatim>\<open>json()\<close> returns. It raises an
  \<^verbatim>\<open>IntegrationAPIError\<close> exactly when \<^verbatim>\<open>json()\<close> raises \<^verbatim>\<open>JSONDecodeError\<close> or
  \<^verbatim>\<open>ContentTypeError\<close> and \<^verbatim>\<open>text()\<close> then returns; that error is built from the integration
  name \<^verbatim>\<open>viventium\<close>, the raw text of the response and the status code of the response. Any
  other exception of \<^verbatim>\<open>json()\<close>, and an exception of \<^verbatim>\<open>text()\<close> in the handler, leaves the
  dispatcher unchanged.
\<close>

theorem make_request_success:
  fixes L self session req s ua
  defines "response \<equiv> transport_of self session req"
  defines "out \<equiv> make_request L self session req s"
  assumes "status response \<in> {200, 201, 204}"
  shows "fst out = s\<lparr>sent := sent s @ [req]\<rparr>
    \<and> snd out = handle_response L self response
    \<and> (\<forall>v. json_body response = Inr v \<longrightarrow> snd out = Inr v)
    \<and> ((\<exists>e. snd out = Inl e \<and> is_api_error e) \<longleftrightarrow>
         (json_body response = Inl DecodeFailure \<or> json_body response = Inl ContentTypeFailure)
         \<and> (\<exists>t. text_body response = Inr t))
    \<and> (\<forall>e. snd out = Inl e \<and> is_api_error e \<longrightarrow>
           text_body response = Inr (the (error_message e))
           \<and> e = IntegrationAPIError ''viventium'' (the (error_message e)) (status response)
           \<and> error_integration_name e = Some (integration_name (init ua))
           \<and> error_status_code e = Some (status response))
    \<and> (\<forall>e. json_body response = Inl e \<and> e \<noteq> DecodeFailure \<and> e \<noteq> ContentTypeFailure
           \<longrightarrow> snd out = Inl (raised e))
    \<and> (\<forall>e. (json_body response = Inl DecodeFailure
                \<or> json_body response = Inl ContentTypeFailure)
              \<and> text_body response = Inl e
           \<longrightarrow> snd out = Inl (raised e))"
proof -
  have out: "fst out = s\<lparr>sent := sent s @ [req]\<rparr>" "snd out = handle_response L self response"
    by (simp_all add: out_def response_def make_request_eq)
  have parsed: "\<forall>v. json_body response = Inr v \<longrightarrow> snd out = Inr v"
    using assms(3) by (simp add: out(2) handle_response_2xx)
  have api: "(\<exists>e. snd out = Inl e \<and> is_api_error e) \<longleftrightarrow>
         (json_body response = Inl DecodeFailure \<or> json_body response = Inl ContentTypeFailure)
         \<and> (\<exists>t. text_body response = Inr t)"
    using assms(3)
    by (auto simp: out(2) handle_response_2xx raised_plain split: sum.splits if_splits)
  have carried: "\<forall>e. snd out = Inl e \<and> is_api_error e \<longrightarrow>
           text_body response = Inr (the (error_message e))
           \<and> e = IntegrationAPIError ''viventium'' (the (error_message e)) (status response)
           \<and> error_integration_name e = Some (integration_name (init ua))
           \<and> error_status_code e = Some (status response)"
    using assms(3)
    by (auto simp: out(2) handle_response_2xx raised_plain init_def
        split: sum.splits if_splits)
  have other: "\<forall>e. json_body response = Inl e \<and> e \<noteq> DecodeFailure
                  \<and> e \<noteq> ContentTypeFailure
           \<longrightarrow> snd out = Inl (raised e)"
    using assms(3) by (simp add: out(2) handle_response_2xx)
  have handler: "\<forall>e. (json_body response = Inl DecodeFailure
                \<or> json_body response = Inl ContentTypeFailure)
              \<and> text_body response = Inl e
           \<longrightarrow> snd out = Inl (raised e)"
    using assms(3) by (auto simp: out(2) handle_response_2xx)
  from out parsed api carried other handler show ?thesis
    by (intro conjI)
qed

theorem make_request_success_witness:
  "status (transport_of example_self (\<lambda>r. json_response 200 ''OK'' (JArr [employee 1]))
             (grid_request example_lib ''https://hcm.viventium.com/api/x'' [] 1))
     \<in> {200, 201, 204}
   \<and> make_request example_lib example_self (\<lambda>r. json_response 200 ''OK'' (JArr [employee 1]))
         (grid_request example_lib ''https://hcm.viventium.com/api/x'' [] 1) example_state
       = (example_state
            \<lparr>sent := [grid_request example_lib ''https://hcm.viventium.com/api/x'' [] 1]\<rparr>,
          Inr (JArr [employee 1]))
   \<and> status (transport_of example_self
               (\<lambda>r. html_response 200 ''OK'' ''<html>maintenance</html>'')
               (grid_request example_lib ''https://hcm.viventium.com/api/x'' [] 1))
     \<in> {200, 201, 204}
   \<and> make_request example_lib example_self
         (\<lambda>r. html_response 200 ''OK'' ''<html>maintenance</html>'')
         (grid_request example_lib ''https://hcm.viventium.com/api/x'' [] 1) example_state
       = (example_state
            \<lparr>sent := [grid_request example_lib ''https://hcm.viventium.com/api/x'' [] 1]\<rparr>,
          Inl (IntegrationAPIError ''viventium'' ''<html>maintenance</html>'' 200))"
proof -
  let ?req = "grid_request example_lib ''https://hcm.viventium.com/api/x'' [] 1"
  let ?ok = "\<lambda>r::request. json_response 200 ''OK'' (JArr [employee 1])"
  let ?bad = "\<lambda>r::request. html_response 200 ''OK'' ''<html>maintenance</html>''"
  have ok: "status (transport_of example_self ?ok ?req) \<in> {200, 201, 204}"
    by (simp add: transport_of_def example_self_simps json_response_def)
  have bad: "status (transport_of example_self ?bad ?req) \<in> {200, 201, 204}"
    by (simp add: transport_of_def example_self_simps html_response_def)
  note good = make_request_success
    [OF ok, where L = example_lib and s = example_state and ua = "''Mozilla/5.0''"]
  note fail = make_request_success
    [OF bad, where L = example_lib and s = example_state and ua = "''Mozilla/5.0''"]
  have sent0: "sent example_state = []"
    by (simp add: example_state_def)
  have body_ok: "json_body (transport_of example_self ?ok ?req) = Inr (JArr [employee 1])"
    by (simp add: transport_of_def example_self_simps json_response_def)
  have body_bad: "json_body (transport_of example_self ?bad ?req) = Inl ContentTypeFailure"
    "text_body (transport_of example_self ?bad ?req) = Inr ''<html>maintenance</html>''"
    "status (transport_of example_self ?bad ?req) = 200"
    by (simp_all add: transport_of_def example_self_simps html_response_def)
  have a1: "fst (make_request example_lib example_self ?ok ?req example_state)
              = example_state\<lparr>sent := [?req]\<rparr>"
    using good sent0 by simp
  have a2: "snd (make_request example_lib example_self ?ok ?req example_state)
              = Inr (JArr [employee 1])"
    using good body_ok by blast
  have a: "make_request example_lib example_self ?ok ?req example_state
       = (example_state\<lparr>sent := [?req]\<rparr>, Inr (JArr [employee 1]))"
    using a1 a2 by (simp add: prod_eq_iff)
  have b1: "fst (make_request example_lib example_self ?bad ?req example_state)
              = example_state\<lparr>sent := [?req]\<rparr>"
    using fail sent0 by simp
  from fail body_bad obtain e where
    e: "snd (make_request example_lib example_self ?bad ?req example_state) = Inl e"
      "is_api_error e"
    by blast
  with fail have "text_body (transport_of example_self ?bad ?req) = Inr (the (error_message e))"
    "e = IntegrationAPIError ''viventium'' (the (error_message e))
           (status (transport_of example_self ?bad ?req))"
    by blast+
  with body_bad have "e = IntegrationAPIError ''viventium'' ''<html>maintenance</html>'' 200"
    by simp
  with e(1) b1 have b: "make_request example_lib example_self ?bad ?req example_state
       = (example_state\<lparr>sent := [?req]\<rparr>,
          Inl (IntegrationAPIError ''viventium'' ''<html>maintenance</html>'' 200))"
    by (simp add: prod_eq_iff)
  from ok a bad b show ?thesis
    by (intro conjI)
qed

text \<open>
  C6 as stated fails: a 200 response whose bytes do not decode makes \<^verbatim>\<open>json()\<close> raise
  \<^verbatim>\<open>UnicodeDecodeError\<close>; parsing has failed, and what the dispatcher raises is that
  exception, which the \<^verbatim>\<open>except\<close> clause of line 37 does not name, not an
  \<^verbatim>\<open>IntegrationAPIError\<close>.
\<close>

theorem undecodable_body_not_api_error:
  "status (undecodable_response 200 ''OK'') = 200
   \<and> json_body (undecodable_response 200 ''OK'') = Inl UnicodeFailure
   \<and> snd (make_request example_lib example_self (\<lambda>r. undecodable_response 200 ''OK'')
            (grid_request example_lib ''https://hcm.viventium.com/api/x'' [] 1) example_state)
       = Inl UnicodeDecodeError
   \<and> \<not> is_api_error UnicodeDecodeError"
  by (simp add: make_request_def example_self_simps handle_response_def
      undecodable_response_def)

text \<open>
  C3, as the code has it. Every \<^verbatim>\<open>IntegrationAPIError\<close> the normalizer raises is built with
  the integration name: the literal \<^verbatim>\<open>viventium\<close> when a 200, 201 or 204 body does not
  parse, \<^verbatim>\<open>self.integration_name\<close> for the other statuses. The \<^verbatim>\<open>IntegrationAuthError\<close> raised
  for 400 and 401 is built from the message alone: no integration name is passed to it.
\<close>

theorem handle_response_error_names:
  assumes "handle_response L self response = Inl e"
  shows "(is_api_error e \<longrightarrow>
            error_integration_name e =
              Some (if status response \<in> {200, 201, 204} then ''viventium''
                    else integration_name self))
    \<and> (is_auth_error e \<longrightarrow>
            status response \<in> {400, 401} \<and> error_integration_name e = None)"
proof (cases "status response \<in> {200, 201, 204}")
  case True
  then show ?thesis
    using assms
    by (auto simp: handle_response_2xx raised_plain split: sum.splits if_splits)
next
  case False
  show ?thesis
  proof (cases "status response \<in> {400, 401}")
    case True
    then show ?thesis
      using assms False
      by (auto simp: handle_response_4xx raised_plain split: sum.splits json.splits)
  next
    case other: False
    then show ?thesis
      using assms False
      by (auto simp: handle_response_else raised_plain split: sum.splits json.splits)
  qed
qed

theorem handle_response_error_names_witness:
  "handle_response example_lib example_self
       (json_response 500 ''Internal Server Error'' vendor_error)
     = Inl (IntegrationAPIError ''viventium''
              (api_message example_lib 500 [(''Content-Type'', ''application/json'')]
                 (JStr ''Session expired'') (JStr ''auth'')) 500)
   \<and> error_integration_name
        (IntegrationAPIError ''viventium''
              (api_message example_lib 500 [(''Content-Type'', ''application/json'')]
                 (JStr ''Session expired'') (JStr ''auth'')) 500) = Some ''viventium''"
proof -
  have run: "handle_response example_lib example_self
       (json_response 500 ''Internal Server Error'' vendor_error)
     = Inl (IntegrationAPIError ''viventium''
              (api_message example_lib 500 [(''Content-Type'', ''application/json'')]
                 (JStr ''Session expired'') (JStr ''auth'')) 500)"
    by (simp add: handle_response_def json_response_def vendor_error_def dict_get_def
        example_self_simps)
  show ?thesis
    using run handle_response_error_names [OF run]
    by (simp add: json_response_def example_self_simps)
qed

text \<open>
  C3 as stated fails: for a 401 response with a JSON body the error raised is an
  \<^verbatim>\<open>IntegrationAuthError\<close> whose only argument is the message.
\<close>

theorem auth_error_without_name:
  "handle_response example_lib example_self (json_response 401 ''Unauthorized'' vendor_error)
     = Inl (IntegrationAuthError
              (''ERSP: 401 - Unauthorized '' @ [CHR 0x0A] @ ''message: Session expired ''
               @ [CHR 0x0A] @ ''error_type: auth''))
   \<and> error_integration_name
        (IntegrationAuthError
              (''ERSP: 401 - Unauthorized '' @ [CHR 0x0A] @ ''message: Session expired ''
               @ [CHR 0x0A] @ ''error_type: auth''))
       \<noteq> Some (integration_name example_self)"
  by (simp add: handle_response_def json_response_def vendor_error_def dict_get_def
      auth_message_def py_str_def str_reason_def str_int_examples)

text \<open>
  The branch for the statuses 400 and 401 never yields a value and never an
  \<^verbatim>\<open>IntegrationAPIError\<close>. When the body parses as a JSON object, the error is an
  \<^verbatim>\<open>IntegrationAuthError\<close> whose message holds the status code, the reason phrase and the
  \<^verbatim>\<open>message\<close> and \<^verbatim>\<open>error_type\<close> fields of the body.
\<close>

theorem handle_response_auth:
  assumes "status response \<in> {400, 401}"
  shows "(\<exists>e. handle_response L self response = Inl e \<and> \<not> is_api_error e)
    \<and> (\<forall>kvs. json_body response = Inr (JObj kvs) \<longrightarrow>
          handle_response L self response =
            Inl (IntegrationAuthError
                   (''ERSP: '' @ str_int (status response) @ '' - ''
                    @ str_reason (reason response) @ [CHR '' '', CHR 0x0A]
                    @ ''message: '' @ py_str L (dict_get kvs ''message'')
                    @ [CHR '' '', CHR 0x0A]
                    @ ''error_type: '' @ py_str L (dict_get kvs ''error_type''))))"
  using assms
  by (auto simp: handle_response_4xx auth_message_def raised_plain
      split: sum.splits json.splits)

theorem handle_response_auth_witness:
  "status (json_response 401 ''Unauthorized'' vendor_error) \<in> {400, 401}
   \<and> json_body (json_response 401 ''Unauthorized'' vendor_error)
       = Inr (JObj [(''message'', JStr ''Session expired''), (''error_type'', JStr ''auth'')])
   \<and> handle_response example_lib example_self (json_response 401 ''Unauthorized'' vendor_error)
       = Inl (IntegrationAuthError
                (''ERSP: 401 - Unauthorized '' @ [CHR 0x0A] @ ''message: Session expired ''
                 @ [CHR 0x0A] @ ''error_type: auth''))"
proof -
  have st: "status (json_response 401 ''Unauthorized'' vendor_error) \<in> {400, 401}"
    by (simp add: json_response_def)
  have body: "json_body (json_response 401 ''Unauthorized'' vendor_error)
       = Inr (JObj [(''message'', JStr ''Session expired''), (''error_type'', JStr ''auth'')])"
    by (simp add: json_response_def vendor_error_def)
  show ?thesis
    using st body handle_response_auth [OF st, of example_lib example_self]
    by (simp add: json_response_def dict_get_def py_str_def str_reason_def str_int_examples)
qed

text \<open>
  C4. Every response with status 400 or 401 is to end in an \<^verbatim>\<open>IntegrationAuthError\<close>. The
  code at a 401 response with an HTML body: \<^verbatim>\<open>response.json()\<close> of line 48 raises
  \<^verbatim>\<open>ContentTypeError\<close>, no handler is around that call, and the exception, not an
  \<^verbatim>\<open>IntegrationAuthError\<close>, leaves the normalizer. The success branch, lines 35 to 41,
  catches this exception of the same call and raises a typed error.
\<close>

theorem unauthorized_html_not_auth_error:
  "status (html_response 401 ''Unauthorized'' ''<html>Sign in</html>'') = 401
   \<and> handle_response example_lib example_self
         (html_response 401 ''Unauthorized'' ''<html>Sign in</html>'') = Inl ContentTypeError
   \<and> \<not> is_auth_error ContentTypeError"
  by (simp add: handle_response_def html_response_def)

text \<open>
  The branch for the remaining statuses, none of 200, 201, 204, 400, 401, never yields a
  value and never an \<^verbatim>\<open>IntegrationAuthError\<close>. When the body parses as a JSON
  object, the error is an \<^verbatim>\<open>IntegrationAPIError\<close> carrying the status code, and a message that
  holds the status code, the response headers and the \<^verbatim>\<open>message\<close> and \<^verbatim>\<open>error_type\<close> fields
  of the body.
\<close>

theorem handle_response_other:
  assumes "status response \<notin> {200, 201, 204}" and "status response \<notin> {400, 401}"
  shows "(\<exists>e. handle_response L self response = Inl e \<and> \<not> is_auth_error e)
    \<and> (\<forall>kvs. json_body response = Inr (JObj kvs) \<longrightarrow>
          handle_response L self response =
            Inl (IntegrationAPIError (integration_name self)
                   (''ersp: '' @ str_int (status response) @ '' - ''
                    @ str_headers L (headers response) @ [CHR '' '', CHR 0x0A]
                    @ ''message: '' @ py_str L (dict_get kvs ''message'')
                    @ [CHR '' '', CHR 0x0A]
                    @ ''error_type: '' @ py_str L (dict_get kvs ''error_type''))
                   (status response)))"
  using assms
  by (auto simp: handle_response_else api_message_def raised_plain
      split: sum.splits json.splits)

theorem handle_response_other_witness:
  "status (json_response 500 ''Internal Server Error'' vendor_error) \<notin> {200, 201, 204}
   \<and> status (json_response 500 ''Internal Server Error'' vendor_error) \<notin> {400, 401}
   \<and> json_body (json_response 500 ''Internal Server Error'' vendor_error)
       = Inr (JObj [(''message'', JStr ''Session expired''), (''error_type'', JStr ''auth'')])
   \<and> handle_response example_lib example_self
        (json_response 500 ''Internal Server Error'' vendor_error)
       = Inl (IntegrationAPIError ''viventium''
                (''ersp: 500 - ''
                 @ str_headers example_lib [(''Content-Type'', ''application/json'')]
                 @ [CHR '' '', CHR 0x0A] @ ''message: Session expired ''
                 @ [CHR 0x0A] @ ''error_type: auth'') 500)"
proof -
  have st: "status (json_response 500 ''Internal Server Error'' vendor_error) \<notin> {200, 201, 204}"
    "status (json_response 500 ''Internal Server Error'' vendor_error) \<notin> {400, 401}"
    by (simp_all add: json_response_def)
  have body: "json_body (json_response 500 ''Internal Server Error'' vendor_error)
       = Inr (JObj [(''message'', JStr ''Session expired''), (''error_type'', JStr ''auth'')])"
    by (simp add: json_response_def vendor_error_def)
  show ?thesis
    using st body handle_response_other [OF st, of example_lib example_self]
    by (simp add: json_response_def dict_get_def py_str_def example_self_simps
        str_int_examples)
qed

text \<open>
  C5. Every response with a status outside 200, 201, 204, 400 and 401 is to end in an
  \<^verbatim>\<open>IntegrationAPIError\<close>. The code at a 502 response with an HTML body:
  \<^verbatim>\<open>response.json()\<close> of line 55 raises \<^verbatim>\<open>ContentTypeError\<close>, no handler is around that
  call, and the exception, not an \<^verbatim>\<open>IntegrationAPIError\<close>, leaves the normalizer. The
  success branch, lines 35 to 41, catches this exception of the same call and raises a
  typed error.
\<close>

theorem bad_gateway_html_not_api_error:
  "status (html_response 502 ''Bad Gateway'' ''<html>Bad Gateway</html>'') = 502
   \<and> handle_response example_lib example_self
         (html_response 502 ''Bad Gateway'' ''<html>Bad Gateway</html>'') = Inl ContentTypeError
   \<and> \<not> is_api_error ContentTypeError"
  by (simp add: handle_response_def html_response_def)

section \<open>Properties of the division resolver\<close>

lemma get_division_id_eq:
  "get_division_id L self session token cookies s =
     (s\<lparr>sent := sent s @ [division_request self token cookies s]\<rparr>,
      case handle_response L self
             (transport_of self session (division_request self token cookies s)) of
        Inl e \<Rightarrow> Inl e
      | Inr response \<Rightarrow>
          (case py_first response of Inl e \<Rightarrow> Inl e | Inr d \<Rightarrow> py_get d ''id''))"
  by (simp add: get_division_id_def make_request_eq split: sum.splits)

lemma map_of_dict_set: "map_of (dict_set kvs k v) k = Some v"
  by (induction kvs) auto

text \<open>
  C7. The resolver issues exactly one request: a \<^verbatim>\<open>GET\<close> of the divisions endpoint under the
  base URL, with \<^verbatim>\<open>pageNumber\<close> 1 and \<^verbatim>\<open>pageSize\<close> 1000. When the dispatcher returns a
  non-empty sequence, the result is \<^verbatim>\<open>get("id")\<close> of its first entry: the \<^verbatim>\<open>id\<close> field when
  that entry is an object; for the response \<^verbatim>\<open>[{"id": "D1"}, {"id": "D2"}]\<close> it is \<^verbatim>\<open>"D1"\<close>.
\<close>

theorem get_division_id_first_entry:
  fixes L self session token cookies s
  defines "req \<equiv> division_request self token cookies s"
  defines "out \<equiv> get_division_id L self session token cookies s"
  shows "sent (fst out) = sent s @ [req]
    \<and> req_method req = ''GET''
    \<and> req_url req = url self @ ''/paystream/v1/divisions''
    \<and> req_params req = [(''pageNumber'', ''1''), (''pageSize'', ''1000'')]
    \<and> (\<forall>x rest.
          handle_response L self (transport_of self session req) = Inr (JArr (x # rest))
          \<longrightarrow> snd out = py_get x ''id'')
    \<and> (\<forall>kvs rest.
          handle_response L self (transport_of self session req) = Inr (JArr (JObj kvs # rest))
          \<longrightarrow> snd out = Inr (dict_get kvs ''id''))
    \<and> (handle_response L self (transport_of self session req)
          = Inr (JArr [JObj [(''id'', JStr ''D1'')], JObj [(''id'', JStr ''D2'')]])
          \<longrightarrow> snd out = Inr (JStr ''D1''))"
  by (simp add: req_def out_def get_division_id_eq division_request_def dict_get_def)

theorem get_division_id_first_entry_witness:
  "handle_response example_lib example_self
       (transport_of example_self two_divisions
          (division_request example_self ''tok123'' (CookieStr ''sess=abc'') example_state))
     = Inr (JArr [JObj [(''id'', JStr ''D1'')], JObj [(''id'', JStr ''D2'')]])
   \<and> snd (get_division_id example_lib example_self two_divisions ''tok123''
             (CookieStr ''sess=abc'') example_state) = Inr (JStr ''D1'')
   \<and> req_url (division_request example_self ''tok123'' (CookieStr ''sess=abc'') example_state)
       = ''https://hcm.viventium.com/api/paystream/v1/divisions''"
proof -
  have resp: "handle_response example_lib example_self
       (transport_of example_self two_divisions
          (division_request example_self ''tok123'' (CookieStr ''sess=abc'') example_state))
     = Inr (JArr [JObj [(''id'', JStr ''D1'')], JObj [(''id'', JStr ''D2'')]])"
    by (simp add: handle_response_2xx transport_of_def example_self_simps two_divisions_def
        json_response_def)
  show ?thesis
    using resp
      get_division_id_first_entry [where L = example_lib and self = example_self
        and session = two_divisions and token = "''tok123''"
        and cookies = "CookieStr ''sess=abc''" and s = example_state]
    by (simp add: example_self_simps dict_get_def)
qed

section \<open>Properties of the cookie builder\<close>

lemma py_join_Cons: "py_join sep (p # ps) = p @ concat (map (\<lambda>q. sep @ q) ps)"
  by (induction ps arbitrary: p) auto

lemma split_pairs_piece:
  "\<not> has_separator p \<Longrightarrow> split_pairs (p @ ''; '' @ rest) = p # split_pairs rest"
  by (induction p rule: has_separator.induct) auto

lemma split_pairs_last: "\<not> has_separator p \<Longrightarrow> split_pairs p = [p]"
  by (induction p rule: has_separator.induct) auto

lemma split_pairs_join:
  "ps \<noteq> [] \<Longrightarrow> \<forall>p \<in> set ps. \<not> has_separator p \<Longrightarrow> split_pairs (py_join ''; '' ps) = ps"
proof (induction "''; ''" ps rule: py_join.induct)
  case 1
  then show ?case by simp
next
  case (2 p)
  then show ?case by (simp add: split_pairs_last)
next
  case (3 p q ps)
  then show ?case
    using split_pairs_piece [of p "py_join ''; '' (q # ps)"] by simp
qed

text \<open>
  C8. The cookie string of a mapping is its \<^verbatim>\<open>key=value\<close> pairs in iteration order with
  \<^verbatim>\<open>"; "\<close> between neighbours (the empty string for the empty mapping); cutting it at the
  separators gives back exactly the N pairs, in order, when no pair contains the separator.
  A string argument is the \<^verbatim>\<open>Cookie\<close> header as it is; a mapping argument is replaced by its
  cookie string.
\<close>

theorem make_cookie_string_pairs:
  "make_cookie_string [] = []
   \<and> make_cookie_string (kv # cookies)
       = cookie_pair kv @ concat (map (\<lambda>kv'. ''; '' @ cookie_pair kv') cookies)
   \<and> cookie_pair (k, v) = k @ ''='' @ v
   \<and> (cookies \<noteq> [] \<and> (\<forall>kv' \<in> set cookies. \<not> has_separator (cookie_pair kv'))
        \<longrightarrow> split_pairs (make_cookie_string cookies) = map cookie_pair cookies
          \<and> length (split_pairs (make_cookie_string cookies)) = length cookies)
   \<and> map_of (req_headers (division_request self token (CookieStr c) s)) ''Cookie'' = Some c
   \<and> map_of (dict_set (setup_headers self token) ''Cookie'' (cookie_header (CookieStr c) s))
        ''Cookie'' = Some c
   \<and> map_of (req_headers (division_request self token (CookieDict a) s)) ''Cookie''
        = Some (make_cookie_string (objects s a))
   \<and> map_of (dict_set (setup_headers self token) ''Cookie'' (cookie_header (CookieDict a) s))
        ''Cookie'' = Some (make_cookie_string (objects s a))"
proof -
  have "split_pairs (make_cookie_string cookies) = map cookie_pair cookies"
    if "cookies \<noteq> []" "\<forall>kv' \<in> set cookies. \<not> has_separator (cookie_pair kv')"
    using that split_pairs_join [of "map cookie_pair cookies"]
    by (simp add: make_cookie_string_def)
  then show ?thesis
    by (simp add: make_cookie_string_def py_join_Cons cookie_pair_def division_request_def
        map_of_dict_set cookie_header_def o_def)
qed

theorem make_cookie_string_pairs_witness:
  "[(''sess'', ''abc''), (''lang'', ''en'')] \<noteq> []
   \<and> \<not> has_separator (cookie_pair (''sess'', ''abc''))
   \<and> \<not> has_separator (cookie_pair (''lang'', ''en''))
   \<and> make_cookie_string [(''sess'', ''abc''), (''lang'', ''en'')] = ''sess=abc; lang=en''
   \<and> split_pairs (make_cookie_string [(''sess'', ''abc''), (''lang'', ''en'')])
       = [''sess=abc'', ''lang=en'']
   \<and> length (split_pairs (make_cookie_string [(''sess'', ''abc''), (''lang'', ''en'')])) = 2"
  using make_cookie_string_pairs
          [where cookies = "[(''sess'', ''abc''), (''lang'', ''en'')]"
             and kv = "(''sess'', ''abc'')" and k = "''sess''" and v = "''abc''"
             and self = example_self and token = "''tok123''" and c = "''sess=abc''"
             and s = example_state and a = 0]
  by (simp add: cookie_pair_def make_cookie_string_def)

section \<open>Properties of the pagination loop\<close>

lemma paginate_stop:
  assumes "handle_response L self (transport_of self session (grid_request L path hs page))
             = Inr (JArr es)"
    and "length es < 100"
  shows "paginate L self session path hs page acc s =
     Some (s\<lparr>sent := sent s @ [grid_request L path hs page],
              printed := printed s @ (if es = [] then [] else [length es])\<rparr>,
           Inr (acc @ es))"
  using assms by (subst paginate.simps) (simp add: make_request_eq)

lemma paginate_continue:
  assumes "handle_response L self (transport_of self session (grid_request L path hs page))
             = Inr (JArr es)"
    and "100 \<le> length es"
  shows "paginate L self session path hs page acc s =
     paginate L self session path hs (page + 1) (acc @ es)
       (s\<lparr>sent := sent s @ [grid_request L path hs page]\<rparr>)"
  using assms by (subst paginate.simps) (auto simp: make_request_eq)

lemma upt_Suc_shift: "[0..<Suc n] = 0 # map Suc [0..<n]"
  by (simp add: upt_conv_Cons map_Suc_upt del: upt_Suc)

text \<open>
  The loop against a backend that serves the pages \<open>pg 0\<close> to \<open>pg k\<close> for the page numbers
  \<open>page\<close> to \<open>page + k\<close>, the first \<open>k\<close> of them full and the last one short.
\<close>

lemma paginate_pages:
  assumes "\<forall>i<k. handle_response L self
                (transport_of self session (grid_request L path hs (page + int i)))
                  = Inr (JArr (pg i))
              \<and> 100 \<le> length (pg i)"
    and "handle_response L self
           (transport_of self session (grid_request L path hs (page + int k)))
             = Inr (JArr (pg k))"
    and "length (pg k) < 100"
  shows "paginate L self session path hs page acc s =
     Some (s\<lparr>sent := sent s @ map (\<lambda>i. grid_request L path hs (page + int i)) [0..<Suc k],
              printed := printed s @ (if pg k = [] then [] else [length (pg k)])\<rparr>,
           Inr (acc @ concat (map pg [0..<Suc k])))"
  using assms
proof (induction k arbitrary: page acc s pg)
  case 0
  then show ?case
    using paginate_stop [of L self session path hs page "pg 0" acc s] by simp
next
  case (Suc k)
  have first:
    "handle_response L self (transport_of self session (grid_request L path hs page))
       = Inr (JArr (pg 0))"
    "100 \<le> length (pg 0)"
    using Suc.prems(1) by (auto dest: spec [of _ 0])
  have rest: "\<forall>i<k. handle_response L self
                (transport_of self session (grid_request L path hs (page + 1 + int i)))
                  = Inr (JArr ((\<lambda>j. pg (Suc j)) i))
              \<and> 100 \<le> length ((\<lambda>j. pg (Suc j)) i)"
  proof (intro allI impI)
    fix i
    assume "i < k"
    then have "Suc i < Suc k" by simp
    with Suc.prems(1) have "handle_response L self
                (transport_of self session (grid_request L path hs (page + int (Suc i))))
                  = Inr (JArr (pg (Suc i)))
              \<and> 100 \<le> length (pg (Suc i))"
      by blast
    then show "handle_response L self
                (transport_of self session (grid_request L path hs (page + 1 + int i)))
                  = Inr (JArr ((\<lambda>j. pg (Suc j)) i))
              \<and> 100 \<le> length ((\<lambda>j. pg (Suc j)) i)"
      by (simp add: add.commute add.left_commute)
  qed
  have last:
    "handle_response L self
       (transport_of self session (grid_request L path hs (page + 1 + int k)))
         = Inr (JArr ((\<lambda>j. pg (Suc j)) k))"
    "length ((\<lambda>j. pg (Suc j)) k) < 100"
    using Suc.prems(2,3) by (simp_all add: add.commute add.left_commute)
  have shift1: "map (\<lambda>i. grid_request L path hs (page + int i)) [0..<Suc (Suc k)] =
      grid_request L path hs page
        # map (\<lambda>i. grid_request L path hs (page + 1 + int i)) [0..<Suc k]"
    by (subst upt_Suc_shift) (simp add: o_def add.commute add.left_commute del: upt_Suc)
  have shift2: "concat (map pg [0..<Suc (Suc k)])
      = pg 0 @ concat (map (\<lambda>j. pg (Suc j)) [0..<Suc k])"
    by (subst upt_Suc_shift) (simp add: o_def del: upt_Suc)
  show ?case
    unfolding shift1 shift2
    by (subst paginate_continue [OF first])
      (simp add: Suc.IH [OF rest last] del: upt_Suc)
qed

lemma paginate_objects:
  assumes "paginate L self session path hs page acc s = Some r"
  shows "objects (fst r) = objects s"
proof (rule paginate.raw_induct
    [where P = "\<lambda>L self session path hs page acc s r. objects (fst r) = objects s",
      OF _ assms])
  fix f L self session path hs page acc s r
  assume IH: "\<And>self session path hs page acc s b y.
      f self session path hs page acc s b = Some y \<Longrightarrow> objects (fst y) = objects b"
    and step: "(case make_request L self session (grid_request L path hs page) s of
      (s1, Inl e) \<Rightarrow> Some (s1, Inl e)
      | (s1, Inr employees) \<Rightarrow>
          case py_len employees of Inl e \<Rightarrow> Some (s1, Inl e)
          | Inr n \<Rightarrow>
              if 0 < n
              then if n < 100
                   then Some (s1\<lparr>printed := printed s1 @ [n]\<rparr>,
                          Inr (acc @ py_iter employees))
                   else f L self session path hs (page + 1) (acc @ py_iter employees) s1
              else Some (s1, Inr acc)) = Some r"
  show "objects (fst r) = objects s"
    using step by (auto simp: make_request_eq split: sum.splits if_splits dest!: IH)
qed

lemma length_concat_full:
  "\<forall>i<k. length (pg i) = 100 \<Longrightarrow> length (concat (map pg [0..<k])) = 100 * k"
  by (induction k) simp_all

subsection \<open>Removing the division key\<close>

lemma pop_division_keys_all:
  "\<forall>e \<in> set es. has_division_key e \<Longrightarrow>
   pop_division_keys es = Inr (map without_division_key es)"
proof (induction es)
  case Nil
  then show ?case by simp
next
  case (Cons e es)
  then obtain kvs where "e = JObj kvs" "''DivisionKey'' \<in> fst ` set kvs"
    by (cases e) auto
  with Cons show ?case by simp
qed

lemma pop_division_keys_Inr:
  "pop_division_keys es = Inr rs \<Longrightarrow>
   (\<forall>e \<in> set es. has_division_key e) \<and> rs = map without_division_key es"
proof (induction es arbitrary: rs)
  case Nil
  then show ?case by simp
next
  case (Cons e es)
  then show ?case
    by (cases e) (auto split: sum.splits if_splits)
qed

lemma pop_division_keys_missing:
  assumes "\<forall>e \<in> set es. is_record e" and "\<exists>e \<in> set es. \<not> has_division_key e"
  shows "pop_division_keys es = Inl (KeyError (JStr ''DivisionKey''))"
  using assms
proof (induction es)
  case Nil
  then show ?case by simp
next
  case (Cons e es)
  from Cons.prems(1) obtain kvs where e: "e = JObj kvs"
    by (cases e) auto
  show ?case
  proof (cases "''DivisionKey'' \<in> fst ` set kvs")
    case True
    with Cons e show ?thesis by simp
  next
    case False
    with e show ?thesis by simp
  qed
qed

lemma dict_get_remove: "k' \<noteq> k \<Longrightarrow> dict_get (dict_remove k kvs) k' = dict_get kvs k'"
proof -
  assume "k' \<noteq> k"
  then have "map_of (filter (\<lambda>kv. fst kv \<noteq> k) kvs) k' = map_of kvs k'"
    by (induction kvs) auto
  then show ?thesis by (simp add: dict_get_def dict_remove_def)
qed

lemma dict_remove_gone: "k \<notin> fst ` set (dict_remove k kvs)"
  by (auto simp: dict_remove_def)

subsection \<open>Runs against the example backend\<close>

lemma upt_1_2: "[Suc 0..<2] = [Suc 0]"
  by (simp add: eval_nat_numeral)

lemma upt_1_4: "[Suc 0..<4] = [Suc 0, 2, 3]"
  by (simp add: eval_nat_numeral)

lemma example_lib_simps:
  "json_dumps example_lib = example_dumps"
  "repr_json example_lib = example_dumps"
  by (simp_all add: example_lib_def)

lemma dumps_query_options_eq:
  "(example_dumps (query_options a) = example_dumps (query_options b)) = (str_int a = str_int b)"
  by (simp add: query_options_def)

lemma str_int_small: "str_int 1 = ''1''" "str_int 2 = ''2''" "str_int 3 = ''3''"
  by (simp_all add: str_int_def str_nat.simps digit_char_def)

lemma example_division:
  "get_division_id example_lib example_self (example_backend recs) tok cookies s =
     (s\<lparr>sent := sent s @ [division_request example_self tok cookies s]\<rparr>, Inr (JStr ''42''))"
  by (simp add: get_division_id_eq transport_of_def example_self_simps example_backend_def
      division_request_def handle_response_2xx json_response_def dict_get_def)

lemma example_grid_path:
  "grid_path example_lib example_self (JStr ''42'') =
     ''https://hcm.viventium.com/api/paystream/v1/divisions/42/grids/EmployeeProfile''"
  by (simp add: grid_path_def py_str_def example_self_simps)

lemma example_one_page:
  assumes "length recs < 100"
  shows "handle_response example_lib example_self
       (transport_of example_self (example_backend recs)
          (grid_request example_lib (grid_path example_lib example_self (JStr ''42'')) hs 1))
     = Inr (JArr recs)"
  using assms
  by (simp add: transport_of_def example_self_simps example_backend_def example_grid_path
      grid_request_def page_of_request_def example_lib_simps dumps_query_options_eq
      str_int_small handle_response_2xx json_response_def)

lemma example_three_pages:
  assumes "length recs div 100 = 2"
  shows "handle_response example_lib example_self
       (transport_of example_self (example_backend recs)
          (grid_request example_lib (grid_path example_lib example_self (JStr ''42'')) hs 1))
     = Inr (JArr (take 100 recs))"
   "handle_response example_lib example_self
       (transport_of example_self (example_backend recs)
          (grid_request example_lib (grid_path example_lib example_self (JStr ''42'')) hs 2))
     = Inr (JArr (take 100 (drop 100 recs)))"
   "handle_response example_lib example_self
       (transport_of example_self (example_backend recs)
          (grid_request example_lib (grid_path example_lib example_self (JStr ''42'')) hs 3))
     = Inr (JArr (take 100 (drop 200 recs)))"
  using assms
  by (simp_all add: transport_of_def example_self_simps example_backend_def example_grid_path
      grid_request_def page_of_request_def upt_1_4 example_lib_simps dumps_query_options_eq
      str_int_small handle_response_2xx json_response_def)

lemma staff_simps:
  "length staff = 250"
  "length (take 200 staff) = 200"
  "\<forall>e \<in> set staff. has_division_key e"
  by (simp_all add: staff_def employee_def)

section \<open>Properties of fetch_employee_profiles\<close>

text \<open>
  C1, as the code has it. After the division is resolved, let the backend serve the pages \<open>pg 0\<close> to \<open>pg k\<close> for
  the page numbers 1 to \<open>k + 1\<close>, the first \<open>k\<close> with exactly 100 records and the last with
  fewer. Then the call returns; the grid requests it issues are those for the pages 1 to
  \<open>k + 1\<close>, in this order, each asking for page size 100; the accumulated list is the
  concatenation of the pages, so an empty last page adds nothing and, alone among the
  stopping pages, prints nothing; and the result is the accumulated list after the
  \<^verbatim>\<open>DivisionKey\<close> pass: when every record has that field, the records without it, as many
  as were accumulated. With 250 records in all there are three grid requests, for pages of
  100, 100 and 50 records, and the result has 250 records when each of them has the field;
  with 200 records there are three grid requests, the third answered by the empty sequence.
\<close>

theorem fetch_employee_profiles_pagination:
  fixes L self session token cookies s s1 d pg k
  defines "path \<equiv> grid_path L self d"
  defines "hs \<equiv> dict_set (setup_headers self token) ''Cookie'' (cookie_header cookies s1)"
  defines "grid \<equiv> \<lambda>p. grid_request L path hs p"
  defines "employee_list \<equiv> concat (map pg [0..<Suc k])"
  assumes division: "get_division_id L self session token cookies s = (s1, Inr d)"
    and full: "\<forall>i<k. handle_response L self (transport_of self session (grid (1 + int i)))
                        = Inr (JArr (pg i))
                      \<and> length (pg i) = 100"
    and short: "handle_response L self (transport_of self session (grid (1 + int k)))
                  = Inr (JArr (pg k))
                \<and> length (pg k) < 100"
  shows "(\<exists>s2. fetch_employee_profiles L self session token cookies s
                  = Some (s2, pop_division_keys employee_list)
             \<and> sent s2 = sent s1 @ map (\<lambda>i. grid (1 + int i)) [0..<Suc k]
             \<and> printed s2 = printed s1 @ (if pg k = [] then [] else [length (pg k)]))
      \<and> (\<forall>p. req_params (grid p) = [(''queryOptions'', json_dumps L (query_options p))]
              \<and> py_get (query_options p) ''pageNumber'' = Inr (JInt p)
              \<and> py_get (query_options p) ''pageSize'' = Inr (JInt 100))
      \<and> length employee_list = 100 * k + length (pg k)
      \<and> (\<forall>rs. pop_division_keys employee_list = Inr rs \<longrightarrow> length rs = length employee_list)
      \<and> ((\<forall>e \<in> set employee_list. has_division_key e) \<longrightarrow>
            pop_division_keys employee_list = Inr (map without_division_key employee_list)
            \<and> length (map without_division_key employee_list) = length employee_list)
      \<and> (length employee_list = 250 \<longrightarrow>
            length (map (\<lambda>i. grid (1 + int i)) [0..<Suc k]) = 3
            \<and> map (\<lambda>i. length (pg i)) [0..<Suc k] = [100, 100, 50])
      \<and> (length employee_list = 200 \<longrightarrow>
            length (map (\<lambda>i. grid (1 + int i)) [0..<Suc k]) = 3
            \<and> map (\<lambda>i. length (pg i)) [0..<Suc k] = [100, 100, 0])"
proof -
  let ?s2 = "s1\<lparr>sent := sent s1 @ map (\<lambda>i. grid (1 + int i)) [0..<Suc k],
                 printed := printed s1 @ (if pg k = [] then [] else [length (pg k)])\<rparr>"
  have full': "\<forall>i<k. handle_response L self
                  (transport_of self session (grid_request L path hs (1 + int i)))
                    = Inr (JArr (pg i))
                \<and> 100 \<le> length (pg i)"
    using full by (simp add: grid_def)
  have loop: "paginate L self session path hs 1 [] s1 = Some (?s2, Inr employee_list)"
    using paginate_pages [where acc = "[]" and s = s1, OF full'] short
    by (simp add: grid_def employee_list_def del: upt_Suc)
  have run: "fetch_employee_profiles L self session token cookies s
               = Some (?s2, pop_division_keys employee_list)"
    using loop
    by (simp add: fetch_employee_profiles_def division path_def hs_def del: upt_Suc)
  have len: "length employee_list = 100 * k + length (pg k)"
    using full by (simp add: employee_list_def length_concat_full)
  have popped: "\<forall>rs. pop_division_keys employee_list = Inr rs
                  \<longrightarrow> length rs = length employee_list"
    by (auto dest: pop_division_keys_Inr)
  have keyed: "(\<forall>e \<in> set employee_list. has_division_key e) \<longrightarrow>
            pop_division_keys employee_list = Inr (map without_division_key employee_list)
            \<and> length (map without_division_key employee_list) = length employee_list"
    by (simp add: pop_division_keys_all)
  have params: "\<forall>p. req_params (grid p) = [(''queryOptions'', json_dumps L (query_options p))]
              \<and> py_get (query_options p) ''pageNumber'' = Inr (JInt p)
              \<and> py_get (query_options p) ''pageSize'' = Inr (JInt 100)"
    by (simp add: grid_def grid_request_def query_options_def dict_get_def)
  have short': "length (pg k) < 100"
    using short by simp
  have k250: "k = 2 \<and> length (pg k) = 50" if "length employee_list = 250"
    using that len short' by presburger
  have k200: "k = 2 \<and> length (pg k) = 0" if "length employee_list = 200"
    using that len short' by presburger
  have upt3: "[0..<3] = [0, 1, 2]"
    by (simp add: eval_nat_numeral)
  have sizes: "map (\<lambda>i. length (pg i)) [0..<Suc k] = [100, 100, length (pg k)]" if "k = 2"
  proof -
    have "length (pg 0) = 100" "length (pg 1) = 100"
      using that full by simp_all
    then show ?thesis
      using that by (simp add: upt3)
  qed
  have c250: "length employee_list = 250 \<longrightarrow>
            length (map (\<lambda>i. grid (1 + int i)) [0..<Suc k]) = 3
            \<and> map (\<lambda>i. length (pg i)) [0..<Suc k] = [100, 100, 50]"
    using k250 sizes by auto
  have c200: "length employee_list = 200 \<longrightarrow>
            length (map (\<lambda>i. grid (1 + int i)) [0..<Suc k]) = 3
            \<and> map (\<lambda>i. length (pg i)) [0..<Suc k] = [100, 100, 0]"
    using k200 sizes by auto
  have returned: "\<exists>s2. fetch_employee_profiles L self session token cookies s
                  = Some (s2, pop_division_keys employee_list)
             \<and> sent s2 = sent s1 @ map (\<lambda>i. grid (1 + int i)) [0..<Suc k]
             \<and> printed s2 = printed s1 @ (if pg k = [] then [] else [length (pg k)])"
    by (rule exI [of _ ?s2]) (simp add: run del: upt_Suc)
  from returned params len popped keyed c250 c200 show ?thesis
    by (intro conjI)
qed

lemma three_pages_concat:
  "length xs < 300 \<Longrightarrow>
   concat (map (\<lambda>i. take 100 (drop (100 * i) xs)) [0..<Suc 2]) = xs"
proof -
  assume len: "length xs < 300"
  have "take 100 xs @ take 100 (drop 100 xs) @ take 100 (drop 200 xs)
      = take 100 xs @ take 100 (drop 100 xs) @ drop 100 (drop 100 xs)"
    using len by simp
  also have "\<dots> = xs"
    by (simp only: append_take_drop_id)
  finally have pages: "take 100 xs @ take 100 (drop 100 xs) @ take 100 (drop 200 xs) = xs" .
  have "[0..<Suc 2] = [0, 1, 2]"
    by (simp add: upt_conv_Cons)
  with pages show ?thesis
    by simp
qed

lemma example_pages_hyps:
  assumes "length recs div 100 = 2"
  shows "\<forall>i<2. handle_response example_lib example_self
            (transport_of example_self (example_backend recs)
               (grid_request example_lib (grid_path example_lib example_self (JStr ''42''))
                  hs (1 + int i)))
              = Inr (JArr (take 100 (drop (100 * i) recs)))
          \<and> length (take 100 (drop (100 * i) recs)) = 100"
    and "handle_response example_lib example_self
            (transport_of example_self (example_backend recs)
               (grid_request example_lib (grid_path example_lib example_self (JStr ''42''))
                  hs (1 + int 2)))
              = Inr (JArr (take 100 (drop (100 * 2) recs)))
          \<and> length (take 100 (drop (100 * 2) recs)) < 100"
proof -
  have "length recs = 100 * (length recs div 100) + length recs mod 100"
    by simp
  moreover have "length recs mod 100 < 100"
    by simp
  ultimately have len: "200 \<le> length recs" "length recs < 300"
    using assms by linarith+
  show "\<forall>i<2. handle_response example_lib example_self
            (transport_of example_self (example_backend recs)
               (grid_request example_lib (grid_path example_lib example_self (JStr ''42''))
                  hs (1 + int i)))
              = Inr (JArr (take 100 (drop (100 * i) recs)))
          \<and> length (take 100 (drop (100 * i) recs)) = 100"
  proof (intro allI impI)
    fix i :: nat
    assume "i < 2"
    then consider "i = 0" | "i = 1" by linarith
    then show "handle_response example_lib example_self
            (transport_of example_self (example_backend recs)
               (grid_request example_lib (grid_path example_lib example_self (JStr ''42''))
                  hs (1 + int i)))
              = Inr (JArr (take 100 (drop (100 * i) recs)))
          \<and> length (take 100 (drop (100 * i) recs)) = 100"
      using len by cases (simp_all add: example_three_pages [OF assms])
  qed
  show "handle_response example_lib example_self
            (transport_of example_self (example_backend recs)
               (grid_request example_lib (grid_path example_lib example_self (JStr ''42''))
                  hs (1 + int 2)))
              = Inr (JArr (take 100 (drop (100 * 2) recs)))
          \<and> length (take 100 (drop (100 * 2) recs)) < 100"
    using len by (simp add: example_three_pages [OF assms])
qed

theorem fetch_employee_profiles_pagination_witness:
  "(\<exists>s2. fetch_employee_profiles example_lib example_self (example_backend staff) ''tok123''
            (CookieDict 0) example_state
          = Some (s2, Inr (map without_division_key staff))
        \<and> length (sent s2) = 4 \<and> printed s2 = [50])
   \<and> length (map without_division_key staff) = 250
   \<and> (\<exists>s2. fetch_employee_profiles example_lib example_self (example_backend (take 200 staff))
            ''tok123'' (CookieDict 0) example_state
          = Some (s2, Inr (map without_division_key (take 200 staff)))
        \<and> length (sent s2) = 4 \<and> printed s2 = [])
   \<and> length (map without_division_key (take 200 staff)) = 200"
proof -
  have d250: "length staff div 100 = 2" and d200: "length (take 200 staff) div 100 = 2"
    by (simp_all add: staff_simps)
  have keys: "\<forall>e \<in> set staff. has_division_key e"
    "\<forall>e \<in> set (take 200 staff). has_division_key e"
    using staff_simps(3) by (auto dest: in_set_takeD)
  have start: "sent example_state = []" "printed example_state = []"
    by (simp_all add: example_state_def)
  have c250: "concat (map (\<lambda>i. take 100 (drop (100 * i) staff)) [0..<Suc 2]) = staff"
    by (rule three_pages_concat) (simp add: staff_simps)
  have c200: "concat (map (\<lambda>i. take 100 (drop (100 * i) (take 200 staff))) [0..<Suc 2])
                = take 200 staff"
    by (rule three_pages_concat) (simp add: staff_simps)
  note run250 = fetch_employee_profiles_pagination
    [where pg = "\<lambda>i. take 100 (drop (100 * i) staff)" and k = 2,
      OF example_division [of staff "''tok123''" "CookieDict 0" example_state]
         example_pages_hyps [OF d250], THEN conjunct1]
  note run200 = fetch_employee_profiles_pagination
    [where pg = "\<lambda>i. take 100 (drop (100 * i) (take 200 staff))" and k = 2,
      OF example_division [of "take 200 staff" "''tok123''" "CookieDict 0" example_state]
         example_pages_hyps [OF d200], THEN conjunct1]
  from run250 obtain s2 where
    r: "fetch_employee_profiles example_lib example_self (example_backend staff) ''tok123''
            (CookieDict 0) example_state
          = Some (s2, pop_division_keys
                        (concat (map (\<lambda>i. take 100 (drop (100 * i) staff)) [0..<Suc 2])))"
    and n: "length (sent s2) = 4" and p: "printed s2 = [50]"
    by (elim exE conjE) (simp add: start staff_simps(1,2) del: upt_Suc)
  from run200 obtain t2 where
    r': "fetch_employee_profiles example_lib example_self (example_backend (take 200 staff))
            ''tok123'' (CookieDict 0) example_state
          = Some (t2, pop_division_keys
                        (concat (map (\<lambda>i. take 100 (drop (100 * i) (take 200 staff)))
                                   [0..<Suc 2])))"
    and n': "length (sent t2) = 4" and p': "printed t2 = []"
    by (elim exE conjE) (simp add: start staff_simps(1,2) del: upt_Suc)
  have a: "\<exists>s2. fetch_employee_profiles example_lib example_self (example_backend staff) ''tok123''
            (CookieDict 0) example_state
          = Some (s2, Inr (map without_division_key staff))
        \<and> length (sent s2) = 4 \<and> printed s2 = [50]"
    using r n p unfolding c250 pop_division_keys_all [OF keys(1)] by blast
  have b: "\<exists>s2. fetch_employee_profiles example_lib example_self (example_backend (take 200 staff))
            ''tok123'' (CookieDict 0) example_state
          = Some (s2, Inr (map without_division_key (take 200 staff)))
        \<and> length (sent s2) = 4 \<and> printed s2 = []"
    using r' n' p' unfolding c200 pop_division_keys_all [OF keys(2)] by blast
  from a b show ?thesis
    by (simp add: staff_simps)
qed

text \<open>
  C1 as stated fails: with 250 records of which the first has no \<^verbatim>\<open>DivisionKey\<close>, the three
  grid requests occur, for pages of 100, 100 and 50 records, and the call raises
  \<^verbatim>\<open>KeyError\<close>: the result is not a list of 250 records.
\<close>

theorem pagination_result_not_records:
  "length staff_with_temp = 250
   \<and> map_option (length \<circ> sent \<circ> fst)
        (fetch_employee_profiles example_lib example_self (example_backend staff_with_temp)
           ''tok123'' (CookieDict 0) example_state) = Some 4
   \<and> map_option snd
        (fetch_employee_profiles example_lib example_self (example_backend staff_with_temp)
           ''tok123'' (CookieDict 0) example_state)
       = Some (Inl (KeyError (JStr ''DivisionKey'')))"
proof -
  have len: "length staff_with_temp = 250"
    by (simp add: staff_with_temp_def)
  then have d: "length staff_with_temp div 100 = 2"
    by simp
  have full: "\<forall>i<2. handle_response example_lib example_self
            (transport_of example_self (example_backend staff_with_temp)
               (grid_request example_lib (grid_path example_lib example_self (JStr ''42''))
                  hs (1 + int i)))
              = Inr (JArr (take 100 (drop (100 * i) staff_with_temp)))
          \<and> 100 \<le> length (take 100 (drop (100 * i) staff_with_temp))" for hs
    using example_pages_hyps(1) [OF d, of hs] by (metis order_refl)
  have short: "handle_response example_lib example_self
            (transport_of example_self (example_backend staff_with_temp)
               (grid_request example_lib (grid_path example_lib example_self (JStr ''42''))
                  hs (1 + int 2)))
              = Inr (JArr (take 100 (drop (100 * 2) staff_with_temp)))"
     "length (take 100 (drop (100 * 2) staff_with_temp)) < 100" for hs
    using example_pages_hyps(2) [OF d, of hs] by blast+
  have all: "concat (map (\<lambda>i. take 100 (drop (100 * i) staff_with_temp)) [0..<Suc 2])
               = staff_with_temp"
    by (rule three_pages_concat) (simp add: len)
  have popped: "pop_division_keys staff_with_temp = Inl (KeyError (JStr ''DivisionKey''))"
    by (simp add: staff_with_temp_def temp_worker_def)
  let ?s1 = "example_state
               \<lparr>sent := sent example_state
                   @ [division_request example_self ''tok123'' (CookieDict 0) example_state]\<rparr>"
  let ?hs = "dict_set (setup_headers example_self ''tok123'') ''Cookie''
               (cookie_header (CookieDict 0) ?s1)"
  let ?s2 = "?s1\<lparr>sent := sent ?s1
                   @ map (\<lambda>i. grid_request example_lib
                                (grid_path example_lib example_self (JStr ''42'')) ?hs
                                (1 + int i)) [0..<Suc 2],
                 printed := printed ?s1
                   @ (if take 100 (drop (100 * 2) staff_with_temp) = [] then []
                      else [length (take 100 (drop (100 * 2) staff_with_temp))])\<rparr>"
  have loop: "paginate example_lib example_self (example_backend staff_with_temp)
                (grid_path example_lib example_self (JStr ''42'')) ?hs 1 [] ?s1
              = Some (?s2, Inr staff_with_temp)"
    using paginate_pages [where acc = "[]" and s = ?s1, OF full short]
    by (simp only: all append_Nil)
  have run: "fetch_employee_profiles example_lib example_self (example_backend staff_with_temp)
           ''tok123'' (CookieDict 0) example_state
      = Some (?s2, Inl (KeyError (JStr ''DivisionKey'')))"
    by (simp only: fetch_employee_profiles_def example_division prod.case sum.case Let_def
        loop option.case popped)
  show ?thesis
    unfolding run by (simp add: len example_state_def del: upt_Suc)
qed



text \<open>
  C9. When the division is resolved and the first grid page is the empty sequence, the call
  returns the empty list, without an error, after that one grid request.
\<close>

theorem fetch_employee_profiles_no_employees:
  assumes "get_division_id L self session token cookies s = (s1, Inr d)"
    and "handle_response L self
           (transport_of self session
              (grid_request L (grid_path L self d)
                 (dict_set (setup_headers self token) ''Cookie'' (cookie_header cookies s1)) 1))
           = Inr (JArr [])"
  shows "fetch_employee_profiles L self session token cookies s =
     Some (s1\<lparr>sent := sent s1 @
                 [grid_request L (grid_path L self d)
                    (dict_set (setup_headers self token) ''Cookie''
                       (cookie_header cookies s1)) 1]\<rparr>,
           Inr [])"
  using assms(1) paginate_stop [OF assms(2), where acc = "[]" and s = s1]
  by (simp add: fetch_employee_profiles_def)

theorem fetch_employee_profiles_no_employees_witness:
  "fetch_employee_profiles example_lib example_self (example_backend []) ''tok123''
       (CookieDict 0) example_state
     = Some (example_state
               \<lparr>sent := [division_request example_self ''tok123'' (CookieDict 0) example_state,
                         grid_request example_lib
                           ''https://hcm.viventium.com/api/paystream/v1/divisions/42/grids/EmployeeProfile''
                           (dict_set (setup_headers example_self ''tok123'') ''Cookie''
                              ''sess=abc'') 1]\<rparr>,
             Inr [])"
  using fetch_employee_profiles_no_employees
          [OF example_division [of "[]" "''tok123''" "CookieDict 0" example_state]
              example_one_page [of "[]"]]
  by (simp add: example_grid_path cookie_header_def example_state_def make_cookie_string_def
      cookie_pair_def)

text \<open>
  C2, as the code has it. Let the loop have accumulated \<open>employee_list\<close>. When every record
  has the field \<^verbatim>\<open>DivisionKey\<close>, the call returns the records in the same order, each
  without that field and with every other field as it was. When the records are objects
  and one of them lacks the field, the call fails with \<^verbatim>\<open>KeyError\<close>: \<^verbatim>\<open>pop\<close> is called
  without a default.
\<close>

theorem fetch_employee_profiles_division_key:
  assumes "get_division_id L self session token cookies s = (s1, Inr d)"
    and "paginate L self session (grid_path L self d)
           (dict_set (setup_headers self token) ''Cookie'' (cookie_header cookies s1))
           1 [] s1 = Some (s2, Inr employee_list)"
  shows "((\<forall>e \<in> set employee_list. has_division_key e) \<longrightarrow>
            fetch_employee_profiles L self session token cookies s
              = Some (s2, Inr (map without_division_key employee_list)))
    \<and> (\<forall>kvs. without_division_key (JObj kvs)
                = JObj (filter (\<lambda>kv. fst kv \<noteq> ''DivisionKey'') kvs)
            \<and> \<not> has_division_key (without_division_key (JObj kvs))
            \<and> (\<forall>k. k \<noteq> ''DivisionKey'' \<longrightarrow>
                   py_get (without_division_key (JObj kvs)) k = py_get (JObj kvs) k))
    \<and> ((\<forall>e \<in> set employee_list. is_record e)
          \<and> (\<exists>e \<in> set employee_list. \<not> has_division_key e) \<longrightarrow>
            fetch_employee_profiles L self session token cookies s
              = Some (s2, Inl (KeyError (JStr ''DivisionKey''))))"
proof -
  have run: "fetch_employee_profiles L self session token cookies s
               = Some (s2, pop_division_keys employee_list)"
    using assms by (simp add: fetch_employee_profiles_def)
  have fields: "\<forall>kvs. without_division_key (JObj kvs)
                = JObj (filter (\<lambda>kv. fst kv \<noteq> ''DivisionKey'') kvs)
            \<and> \<not> has_division_key (without_division_key (JObj kvs))
            \<and> (\<forall>k. k \<noteq> ''DivisionKey'' \<longrightarrow>
                   py_get (without_division_key (JObj kvs)) k = py_get (JObj kvs) k)"
  proof (intro allI conjI impI)
    fix kvs k
    show "without_division_key (JObj kvs)
            = JObj (filter (\<lambda>kv. fst kv \<noteq> ''DivisionKey'') kvs)"
      by (simp add: dict_remove_def)
    show "\<not> has_division_key (without_division_key (JObj kvs))"
      using dict_remove_gone [of "''DivisionKey''" kvs] by simp
    show "py_get (without_division_key (JObj kvs)) k = py_get (JObj kvs) k"
      if "k \<noteq> ''DivisionKey''"
      using that by (simp add: dict_get_remove)
  qed
  have good: "(\<forall>e \<in> set employee_list. has_division_key e) \<longrightarrow>
            fetch_employee_profiles L self session token cookies s
              = Some (s2, Inr (map without_division_key employee_list))"
    by (simp add: run pop_division_keys_all)
  have bad: "(\<forall>e \<in> set employee_list. is_record e)
          \<and> (\<exists>e \<in> set employee_list. \<not> has_division_key e) \<longrightarrow>
            fetch_employee_profiles L self session token cookies s
              = Some (s2, Inl (KeyError (JStr ''DivisionKey'')))"
    by (simp add: run pop_division_keys_missing)
  from good fields bad show ?thesis
    by (intro conjI)
qed

theorem fetch_employee_profiles_division_key_witness:
  "fetch_employee_profiles example_lib example_self (example_backend [employee 1, employee 2])
       ''tok123'' (CookieDict 0) example_state
     = Some (example_state
               \<lparr>sent := [division_request example_self ''tok123'' (CookieDict 0) example_state,
                         grid_request example_lib
                           ''https://hcm.viventium.com/api/paystream/v1/divisions/42/grids/EmployeeProfile''
                           (dict_set (setup_headers example_self ''tok123'') ''Cookie''
                              ''sess=abc'') 1],
                 printed := [2]\<rparr>,
             Inr [JObj [(''EmployeeNumber'', JInt 1), (''EmployeeStatus'', JStr ''Active'')],
                  JObj [(''EmployeeNumber'', JInt 2), (''EmployeeStatus'', JStr ''Active'')]])
   \<and> fetch_employee_profiles example_lib example_self
         (example_backend [employee 1, temp_worker]) ''tok123'' (CookieDict 0) example_state
     = Some (example_state
               \<lparr>sent := [division_request example_self ''tok123'' (CookieDict 0) example_state,
                         grid_request example_lib
                           ''https://hcm.viventium.com/api/paystream/v1/divisions/42/grids/EmployeeProfile''
                           (dict_set (setup_headers example_self ''tok123'') ''Cookie''
                              ''sess=abc'') 1],
                 printed := [2]\<rparr>,
             Inl (KeyError (JStr ''DivisionKey'')))"
proof -
  have loop: "paginate example_lib example_self (example_backend recs)
           (grid_path example_lib example_self (JStr ''42''))
           hs 1 [] s1
        = Some (s1\<lparr>sent := sent s1 @ [grid_request example_lib
                      (grid_path example_lib example_self (JStr ''42'')) hs 1],
                   printed := printed s1 @ (if recs = [] then [] else [length recs])\<rparr>,
                Inr recs)"
    if "length recs < 100" for recs hs s1
    using paginate_stop [OF example_one_page [OF that], where acc = "[]" and s = s1] that
    by simp
  note good = fetch_employee_profiles_division_key
    [OF example_division [of "[employee 1, employee 2]" "''tok123''" "CookieDict 0"
          example_state]
        loop [of "[employee 1, employee 2]"]]
  note bad = fetch_employee_profiles_division_key
    [OF example_division [of "[employee 1, temp_worker]" "''tok123''" "CookieDict 0"
          example_state]
        loop [of "[employee 1, temp_worker]"]]
  show ?thesis
    using good bad
    by (simp add: example_grid_path cookie_header_def example_state_def make_cookie_string_def
        cookie_pair_def employee_def temp_worker_def dict_remove_def)
qed

text \<open>
  C2 as stated fails: a record without \<^verbatim>\<open>DivisionKey\<close> is not returned unchanged, the call
  raises \<^verbatim>\<open>KeyError\<close>.
\<close>

theorem missing_division_key_raises:
  "map_option snd
     (fetch_employee_profiles example_lib example_self (example_backend [temp_worker])
        ''tok123'' (CookieStr ''sess=abc'') example_state)
     = Some (Inl (KeyError (JStr ''DivisionKey'')))
   \<and> map_option snd
     (fetch_employee_profiles example_lib example_self (example_backend [temp_worker])
        ''tok123'' (CookieStr ''sess=abc'') example_state)
     \<noteq> Some (Inr [temp_worker])
   \<and> \<not> has_division_key temp_worker"
proof -
  have page: "handle_response example_lib example_self
       (transport_of example_self (example_backend [temp_worker])
          (grid_request example_lib (grid_path example_lib example_self (JStr ''42'')) hs 1))
     = Inr (JArr [temp_worker])" for hs
    by (rule example_one_page) simp
  have run: "map_option snd
     (fetch_employee_profiles example_lib example_self (example_backend [temp_worker])
        ''tok123'' (CookieStr ''sess=abc'') example_state)
     = Some (pop_division_keys [temp_worker])"
    by (simp add: fetch_employee_profiles_def example_division paginate_stop [OF page])
  show ?thesis
    unfolding run by (simp add: temp_worker_def)
qed

text \<open>
  C10. Neither the division resolver nor \<^verbatim>\<open>fetch_employee_profiles\<close> writes to a mapping of
  the caller: the store of cookie mappings is the same after the call as before it, so the
  mapping passed as \<^verbatim>\<open>cookies\<close> is unchanged.
\<close>

theorem cookie_mapping_unchanged:
  "objects (fst (get_division_id L self session token cookies s)) = objects s
   \<and> (\<forall>s' r. fetch_employee_profiles L self session token cookies s = Some (s', r)
         \<longrightarrow> objects s' = objects s)
   \<and> (\<forall>s' r a. cookies = CookieDict a
         \<and> fetch_employee_profiles L self session token cookies s = Some (s', r)
         \<longrightarrow> objects s' a = objects s a)"
proof -
  have division: "objects (fst (get_division_id L self session token cookies s)) = objects s"
    by (simp add: get_division_id_eq)
  have fetch: "objects s' = objects s"
    if "fetch_employee_profiles L self session token cookies s = Some (s', r)" for s' r
  proof (cases "get_division_id L self session token cookies s")
    case (Pair s1 res)
    then have s1: "objects s1 = objects s"
      using division by simp
    show ?thesis
    proof (cases res)
      case (Inl e)
      with Pair that s1 show ?thesis
        by (simp add: fetch_employee_profiles_def)
    next
      case (Inr division_id)
      with Pair that obtain s2 r2 where
        loop: "paginate L self session (grid_path L self division_id)
                 (dict_set (setup_headers self token) ''Cookie'' (cookie_header cookies s1))
                 1 [] s1 = Some (s2, r2)"
        and s': "s' = s2"
        by (auto simp: fetch_employee_profiles_def split: option.splits sum.splits)
      from paginate_objects [OF loop] s1 s' show ?thesis
        by simp
    qed
  qed
  have all: "\<forall>s' r. fetch_employee_profiles L self session token cookies s = Some (s', r)
         \<longrightarrow> objects s' = objects s"
    using fetch by blast
  have at: "\<forall>s' r a. cookies = CookieDict a
         \<and> fetch_employee_profiles L self session token cookies s = Some (s', r)
         \<longrightarrow> objects s' a = objects s a"
    using all by metis
  from division all at show ?thesis
    by (intro conjI)
qed

theorem cookie_mapping_unchanged_witness:
  "(\<exists>s'. fetch_employee_profiles example_lib example_self
            (example_backend [employee 1, employee 2]) ''tok123'' (CookieDict 0) example_state
          = Some (s', Inr (map without_division_key [employee 1, employee 2]))
        \<and> objects s' 0 = [(''sess'', ''abc'')])
   \<and> objects example_state 0 = [(''sess'', ''abc'')]
   \<and> objects (fst (get_division_id example_lib example_self
                      (example_backend [employee 1, employee 2]) ''tok123'' (CookieDict 0)
                      example_state)) 0
       = [(''sess'', ''abc'')]"
proof -
  have page: "handle_response example_lib example_self
       (transport_of example_self (example_backend [employee 1, employee 2])
          (grid_request example_lib (grid_path example_lib example_self (JStr ''42'')) hs 1))
     = Inr (JArr [employee 1, employee 2])" for hs
    by (rule example_one_page) simp
  have popped: "pop_division_keys [employee 1, employee 2]
                  = Inr (map without_division_key [employee 1, employee 2])"
    by (rule pop_division_keys_all) (simp add: employee_def)
  have run: "\<exists>s'. fetch_employee_profiles example_lib example_self
            (example_backend [employee 1, employee 2]) ''tok123'' (CookieDict 0) example_state
          = Some (s', Inr (map without_division_key [employee 1, employee 2]))"
    unfolding popped [symmetric]
    by (simp add: fetch_employee_profiles_def example_division paginate_stop [OF page])
  then obtain s' where s': "fetch_employee_profiles example_lib example_self
            (example_backend [employee 1, employee 2]) ''tok123'' (CookieDict 0) example_state
          = Some (s', Inr (map without_division_key [employee 1, employee 2]))"
    by blast
  have start: "objects example_state 0 = [(''sess'', ''abc'')]"
    by (simp add: example_state_def)
  note frame = cookie_mapping_unchanged
    [of example_lib example_self "example_backend [employee 1, employee 2]" "''tok123''"
       "CookieDict 0" example_state]
  from frame s' have "objects s' = objects example_state"
    by blast
  with s' start frame show ?thesis
    by auto
qed

end
